theory Spec2Isabelle
  imports Main
begin

section \<open>Go strings\<close>

text \<open>
  A Go \<^verbatim>\<open>string\<close> is a byte sequence and \<^verbatim>\<open>len\<close> counts bytes, so a string is a
  \<^typ>\<open>char list\<close>. The functions of package \<^verbatim>\<open>strings\<close> that the service calls are
  written out below.
\<close>

fun HasPrefix :: "string \<Rightarrow> string \<Rightarrow> bool" where
  "HasPrefix s [] = True"
| "HasPrefix [] (p # ps) = False"
| "HasPrefix (c # cs) (p # ps) = (c = p \<and> HasPrefix cs ps)"

text \<open>\<^verbatim>\<open>strings.Index\<close>: the position of the first occurrence, or \<open>-1\<close>.\<close>

primrec Index :: "string \<Rightarrow> string \<Rightarrow> int" where
  "Index [] substr = (if substr = [] then 0 else - 1)"
| "Index (c # cs) substr =
     (if HasPrefix (c # cs) substr then 0
      else (let i = Index cs substr in if i = - 1 then - 1 else i + 1))"

definition Contains :: "string \<Rightarrow> string \<Rightarrow> bool" where
  "Contains s substr = (Index s substr \<ge> 0)"

definition TrimPrefix :: "string \<Rightarrow> string \<Rightarrow> string" where
  "TrimPrefix s pre = (if HasPrefix s pre then drop (length pre) s else s)"

text \<open>
  \<^verbatim>\<open>strings.TrimSpace\<close> and \<^verbatim>\<open>strings.Fields\<close> read the string as UTF-8 and test every
  character with \<^verbatim>\<open>unicode.IsSpace\<close>. The white space characters of Unicode are listed
  here by their encodings: the six of ASCII, U+0085, U+00A0, U+1680, U+2000 to U+200A,
  U+2028, U+2029, U+202F, U+205F and U+3000.
\<close>

definition unicodeSpaces :: "string list" where
  "unicodeSpaces =
     [[CHR 0x09], [CHR 0x0A], [CHR 0x0B], [CHR 0x0C], [CHR 0x0D], [CHR 0x20],
      [CHR 0xC2, CHR 0x85], [CHR 0xC2, CHR 0xA0],
      [CHR 0xE1, CHR 0x9A, CHR 0x80],
      [CHR 0xE2, CHR 0x80, CHR 0x80], [CHR 0xE2, CHR 0x80, CHR 0x81],
      [CHR 0xE2, CHR 0x80, CHR 0x82], [CHR 0xE2, CHR 0x80, CHR 0x83],
      [CHR 0xE2, CHR 0x80, CHR 0x84], [CHR 0xE2, CHR 0x80, CHR 0x85],
      [CHR 0xE2, CHR 0x80, CHR 0x86], [CHR 0xE2, CHR 0x80, CHR 0x87],
      [CHR 0xE2, CHR 0x80, CHR 0x88], [CHR 0xE2, CHR 0x80, CHR 0x89],
      [CHR 0xE2, CHR 0x80, CHR 0x8A],
      [CHR 0xE2, CHR 0x80, CHR 0xA8], [CHR 0xE2, CHR 0x80, CHR 0xA9],
      [CHR 0xE2, CHR 0x80, CHR 0xAF], [CHR 0xE2, CHR 0x81, CHR 0x9F],
      [CHR 0xE3, CHR 0x80, CHR 0x80]]"

text \<open>\<^verbatim>\<open>unicode.IsSpace\<close>, on a character given by its encoding.\<close>

definition isSpace :: "string \<Rightarrow> bool" where
  "isSpace r = (r \<in> set unicodeSpaces)"

text \<open>The number of bytes of the white space character a string begins with, or 0.\<close>

definition spaceWidth :: "string \<Rightarrow> nat" where
  "spaceWidth s = (case find (HasPrefix s) unicodeSpaces of None \<Rightarrow> 0 | Some r \<Rightarrow> length r)"

text \<open>
  \<open>runes\<close> cuts a string into its white space characters and the single bytes between
  them. Go's decoder takes either a whole well-formed sequence or one byte, and the first
  byte of a sequence is never a continuation byte, so wherever the encoding of a white
  space character stands in the string, the decoder reads that character there, on
  malformed input too. The other characters are never inspected and stay bytes.
\<close>

function runes :: "string \<Rightarrow> string list" where
  "runes s =
     (if s = [] then []
      else if spaceWidth s = 0 then [hd s] # runes (tl s)
      else take (spaceWidth s) s # runes (drop (spaceWidth s) s))"
  by pat_completeness auto
termination
  by (relation "measure length") auto

definition TrimSpace :: "string \<Rightarrow> string" where
  "TrimSpace s = concat (rev (dropWhile isSpace (rev (dropWhile isSpace (runes s)))))"

text \<open>
  \<^verbatim>\<open>strings.Fields\<close> scans the characters once, closing the current field at every
  white space character; \<open>cur\<close> is the field being read.
\<close>

primrec fieldsFrom :: "string \<Rightarrow> string list \<Rightarrow> string list" where
  "fieldsFrom cur [] = (if cur = [] then [] else [cur])"
| "fieldsFrom cur (r # rs) =
     (if isSpace r then (if cur = [] then fieldsFrom [] rs else cur # fieldsFrom [] rs)
      else fieldsFrom (cur @ r) rs)"

definition Fields :: "string \<Rightarrow> string list" where
  "Fields s = fieldsFrom [] (runes s)"

fun Join :: "string list \<Rightarrow> string \<Rightarrow> string" where
  "Join [] sep = []"
| "Join [x] sep = x"
| "Join (x # y # ys) sep = x @ sep @ Join (y # ys) sep"

text \<open>
  \<^verbatim>\<open>strings.Split\<close> and \<^verbatim>\<open>strings.ReplaceAll\<close> both walk the string with
  \<^verbatim>\<open>Index\<close>, cutting at each occurrence of the separator. With an empty separator Go
  cuts after every character.
\<close>

function Split :: "string \<Rightarrow> string \<Rightarrow> string list" where
  "Split s sep =
     (if sep = [] then map (\<lambda>c. [c]) s
      else (let m = Index s sep in
            if m < 0 then [s]
            else take (nat m) s # Split (drop (nat m + length sep) s) sep))"
  by pat_completeness auto
termination
proof (relation "measure (\<lambda>(s, sep). length s)")
  show "wf (measure (\<lambda>(s, sep). length s))" by simp
next
  fix s sep :: string and m :: int
  assume sep: "sep \<noteq> []" and m: "m = Index s sep" and found: "\<not> m < 0"
  have "Index t sep \<noteq> - 1 \<Longrightarrow> t \<noteq> []" for t
    using sep by (cases t) auto
  with m found have "s \<noteq> []" by auto
  with sep show "((drop (nat m + length sep) s, sep), (s, sep)) \<in> measure (\<lambda>(s, sep). length s)"
    by (cases sep) auto
qed

function ReplaceAll :: "string \<Rightarrow> string \<Rightarrow> string \<Rightarrow> string" where
  "ReplaceAll s old new =
     (if old = [] then new @ concat (map (\<lambda>c. c # new) s)
      else (let j = Index s old in
            if j < 0 then s
            else take (nat j) s @ new @ ReplaceAll (drop (nat j + length old) s) old new))"
  by pat_completeness auto
termination
proof (relation "measure (\<lambda>(s, old, new). length s)")
  show "wf (measure (\<lambda>(s, old, new). length s))" by simp
next
  fix s old new :: string and j :: int
  assume old: "old \<noteq> []" and j: "j = Index s old" and found: "\<not> j < 0"
  have "Index t old \<noteq> - 1 \<Longrightarrow> t \<noteq> []" for t
    using old by (cases t) auto
  with j found have "s \<noteq> []" by auto
  with old show "((drop (nat j + length old) s, old, new), (s, old, new))
      \<in> measure (\<lambda>(s, old, new). length s)"
    by (cases old) auto
qed

text \<open>The verb \<^verbatim>\<open>%d\<close> of \<^verbatim>\<open>fmt.Sprintf\<close>, on the non-negative integers it is given here.\<close>

function Itoa :: "nat \<Rightarrow> string" where
  "Itoa n = (if n < 10 then [''0123456789'' ! n]
             else Itoa (n div 10) @ [''0123456789'' ! (n mod 10)])"
  by pat_completeness auto
termination
  by (relation "measure id") auto

text \<open>
  The equations of the four functions defined with a termination proof rewrite a call
  into a term with the same call in it; they are unfolded by hand where a proof needs
  them.
\<close>

declare runes.simps [simp del] Split.simps [simp del] ReplaceAll.simps [simp del]
  Itoa.simps [simp del]


section \<open>Data model\<close>

text \<open>
  The structs of \<^verbatim>\<open>models.go\<close>. A record field is a constant of the theory, so the
  fields \<^verbatim>\<open>URL\<close>, \<^verbatim>\<open>Source\<close> and \<^verbatim>\<open>Success\<close>, which several structs share, carry the
  struct's name as a suffix outside \<open>NewsArticle\<close> and \<open>NewsResponse\<close>. The time of
  extraction is a clock reading, a natural number.
\<close>

record NewsArticle =
  ID :: string
  Title :: string
  Description :: string
  ImageURL :: string
  URL :: string
  Source :: string
  PublishedAt :: nat
  Category :: string

record NewsResponse =
  Success :: bool
  Data :: "NewsArticle list"
  Count :: int
  Source_NewsResponse :: string

record Source =
  Name :: string
  DisplayName :: string
  URL_Source :: string
  Active :: bool

record ErrorResponse =
  Success_ErrorResponse :: bool
  Error :: string
  Message :: string

text \<open>A Go \<^verbatim>\<open>error\<close> is its message, as \<^verbatim>\<open>fmt.Errorf\<close> builds it.\<close>

datatype error = Errorf string

fun errorString :: "error \<Rightarrow> string" where
  "errorString (Errorf msg) = msg"


section \<open>The document-query interface and the network\<close>

text \<open>
  Selecting tags and attributes is the work of colly and goquery, not of this program.
  A container handed to the \<^verbatim>\<open>OnHTML\<close> callback is therefore the three capabilities the
  callback uses: \<^verbatim>\<open>e.ChildText(selector)\<close>, \<^verbatim>\<open>e.ChildAttr(selector, attr)\<close> and
  \<^verbatim>\<open>e.Request.AbsoluteURL(u)\<close>. A goquery selection element offers \<^verbatim>\<open>Attr\<close>, whose
  second result (the attribute exists) is the \<open>Some\<close> of the option, and \<^verbatim>\<open>Text\<close>; a
  document offers \<^verbatim>\<open>Find\<close>, the matching elements in document order.
\<close>

record Request =
  AbsoluteURL :: "string \<Rightarrow> string"

record HTMLElement =
  ChildText :: "string \<Rightarrow> string"
  ChildAttr :: "string \<Rightarrow> string \<Rightarrow> string"
  Request :: Request

record Selection =
  Attr :: "string \<Rightarrow> string option"
  Text :: string

record Document =
  Find :: "string \<Rightarrow> Selection list"

text \<open>
  What \<^verbatim>\<open>http.NewRequest\<close>, \<^verbatim>\<open>client.Do\<close> and \<^verbatim>\<open>goquery.NewDocumentFromReader\<close> can
  give for one URL: a request that cannot be built, a transport failure, or a response
  with its status code and its body, parsed or not.
\<close>

datatype HTTPResult =
    NewRequestFailed error
  | DoFailed error
  | Response nat "error + Document"

text \<open>
  The world outside the process: \<open>Visit\<close> is the collector fetching the entry page and
  finding the containers that match the \<^verbatim>\<open>OnHTML\<close> selector, in document order, or
  failing; \<open>Get\<close> is the plain HTTP client on an article page; \<open>Now\<close> is the clock read
  when the article with the given sequence number is built. Log output is not modelled.
\<close>

record World =
  Visit :: "string \<Rightarrow> error + HTMLElement list"
  Get :: "string \<Rightarrow> HTTPResult"
  Now :: "nat \<Rightarrow> nat"

definition StatusOK :: nat where "StatusOK = 200"
definition StatusBadRequest :: nat where "StatusBadRequest = 400"
definition StatusNotFound :: nat where "StatusNotFound = 404"
definition StatusInternalServerError :: nat where "StatusInternalServerError = 500"


section \<open>Listing extraction: the OnHTML callback of fetchTheDailyStarWithColly\<close>

record CrawlState =
  articles :: "NewsArticle list"
  articleID :: nat

definition titleSelectors :: "string list" where
  "titleSelectors = [''h1'', ''h2'', ''h3'', ''h4'', ''.title'', ''.headline'']"

text \<open>
  The loop over \<open>titleSelectors\<close>: every round overwrites \<open>title\<close>, and the loop is left
  early when the trimmed text is non-empty and at least 10 bytes long. When no selector
  passes, \<open>title\<close> keeps the text of the last selector.
\<close>

fun selectTitle :: "HTMLElement \<Rightarrow> string list \<Rightarrow> string \<Rightarrow> string" where
  "selectTitle e [] title = title"
| "selectTitle e (selector # rest) title =
     (let title = TrimSpace (ChildText e selector) in
      if title \<noteq> [] \<and> length title \<ge> 10 then title
      else selectTitle e rest title)"

definition truncateAt :: "string \<Rightarrow> string \<Rightarrow> string" where
  "truncateAt title mark =
     (let idx = Index title mark in
      if idx \<noteq> - 1 then TrimSpace (take (nat idx) title) else title)"

text \<open>Clean up the title, then cut it at the first comma and at the first period.\<close>

definition cleanTitle :: "string \<Rightarrow> string" where
  "cleanTitle title =
     (let title = ReplaceAll title [CHR 0x0A] '' '';
          title = ReplaceAll title [CHR 0x0D] '' '';
          title = ReplaceAll title [CHR 0x09] '' '';
          title = Join (Fields title) '' '';
          title = truncateAt title '','';
          title = truncateAt title ''.''
      in title)"

definition pathSegments :: "string \<Rightarrow> string list" where
  "pathSegments link = Split (TrimPrefix link ''https://www.thedailystar.net'') ''/''"

text \<open>Filter out category links: short paths and paths that end in a slash.\<close>

definition categoryLink :: "string \<Rightarrow> bool" where
  "categoryLink link =
     (length (pathSegments link) \<le> 3 \<or> last (pathSegments link) = [])"

definition notNewsLink :: "string \<Rightarrow> bool" where
  "notNewsLink link =
     (\<not> Contains link ''/news/'' \<and>
      \<not> Contains link ''/bangladesh/'' \<and>
      \<not> Contains link ''/world/'' \<and>
      \<not> Contains link ''/business/'' \<and>
      \<not> Contains link ''/sports/'' \<and>
      \<not> Contains link ''/entertainment/'')"

text \<open>Skip duplicates: the scan of the articles accepted so far.\<close>

primrec duplicateURL :: "NewsArticle list \<Rightarrow> string \<Rightarrow> bool" where
  "duplicateURL [] link = False"
| "duplicateURL (article # rest) link = (if URL article = link then True else duplicateURL rest link)"

definition imageAttrs :: "string list" where
  "imageAttrs = [''src'', ''data-src'', ''data-lazy-src'', ''data-srcset'', ''data-original'',
                 ''data-image'', ''data-lazy'']"

fun selectImageAttr :: "HTMLElement \<Rightarrow> string list \<Rightarrow> string \<Rightarrow> string" where
  "selectImageAttr e [] imageURL = imageURL"
| "selectImageAttr e (attr # rest) imageURL =
     (let imageURL = ChildAttr e ''img'' attr in
      if imageURL \<noteq> [] then imageURL else selectImageAttr e rest imageURL)"

text \<open>
  A non-empty image value is made absolute; of a comma-separated candidate list only the
  first entry is kept, up to its first space. \<^verbatim>\<open>Split\<close> with a non-empty separator
  never returns an empty slice, so index 0 is the head of the list.
\<close>

definition resolveImageURL :: "HTMLElement \<Rightarrow> string \<Rightarrow> string" where
  "resolveImageURL e imageURL =
     (if imageURL \<noteq> [] then
        (let imageURL = AbsoluteURL (Request e) imageURL in
         if Contains imageURL '','' then
           (let imageURL = hd (Split imageURL '','') in
            TrimSpace (hd (Split imageURL '' '')))
         else imageURL)
      else imageURL)"

definition extractImageURL :: "HTMLElement \<Rightarrow> string" where
  "extractImageURL e =
     (let imageURL = selectImageAttr e imageAttrs [];
          imageURL = (if imageURL = [] then ChildAttr e ''picture source'' ''srcset'' else imageURL)
      in resolveImageURL e imageURL)"

definition extractDescription :: "HTMLElement \<Rightarrow> string" where
  "extractDescription e =
     (let description =
            TrimSpace (ChildText e ''p, .summary, .intro, .teaser-text, .excerpt, .description'')
      in if description \<noteq> [] \<and> length description > 200
         then take 200 description @ ''...'' else description)"

text \<open>
  The body of the callback up to the \<^verbatim>\<open>append\<close>: \<open>None\<close> is one of its early returns,
  \<open>Some\<close> the article it builds.
\<close>

definition candidate :: "World \<Rightarrow> HTMLElement \<Rightarrow> CrawlState \<Rightarrow> NewsArticle option" where
  "candidate w e st =
     (if length (articles st) \<ge> 10 then None
      else
        let title = selectTitle e titleSelectors [] in
        if title = [] then None
        else
          let title = cleanTitle title;
              link = ChildAttr e ''a'' ''href'' in
          if link = [] then None
          else
            let link = AbsoluteURL (Request e) link in
            if categoryLink link then None
            else if notNewsLink link then None
            else if duplicateURL (articles st) link then None
            else
              Some \<lparr> ID = ''dailystar_'' @ Itoa (articleID st),
                     Title = title,
                     Description = extractDescription e,
                     ImageURL = extractImageURL e,
                     URL = link,
                     Source = ''thedailystar'',
                     PublishedAt = Now w (articleID st),
                     Category = [] \<rparr>)"

definition onHTML :: "World \<Rightarrow> HTMLElement \<Rightarrow> CrawlState \<Rightarrow> CrawlState" where
  "onHTML w e st =
     (case candidate w e st of
        None \<Rightarrow> st
      | Some article \<Rightarrow>
          st \<lparr> articles := articles st @ [article], articleID := articleID st + 1 \<rparr>)"


section \<open>Enrichment: updateMissingImageURLs and scrapeImageFromURL\<close>

text \<open>
  One \<^verbatim>\<open>Each\<close> loop of \<open>scrapeImageFromURL\<close>: the closure assigns the attribute to
  \<open>imageURL\<close> when the attribute exists and \<open>imageURL\<close> is still empty.
\<close>

primrec eachAttr :: "string \<Rightarrow> Selection list \<Rightarrow> string \<Rightarrow> string" where
  "eachAttr name [] imageURL = imageURL"
| "eachAttr name (s # rest) imageURL =
     eachAttr name rest
       (case Attr s name of
          Some src \<Rightarrow> (if imageURL = [] then src else imageURL)
        | None \<Rightarrow> imageURL)"

definition scrapeImageFromURL :: "World \<Rightarrow> string \<Rightarrow> error + string" where
  "scrapeImageFromURL w url =
     (case Get w url of
        NewRequestFailed err \<Rightarrow> Inl (Errorf (''failed to create request: '' @ errorString err))
      | DoFailed err \<Rightarrow>
          Inl (Errorf (''failed to fetch URL '' @ url @ '': '' @ errorString err))
      | Response StatusCode body \<Rightarrow>
          if StatusCode \<noteq> StatusOK
          then Inl (Errorf (''unexpected status code: '' @ Itoa StatusCode))
          else
            (case body of
               Inl err \<Rightarrow> Inl (Errorf (''failed to parse HTML: '' @ errorString err))
             | Inr doc \<Rightarrow>
                 let imageURL = eachAttr ''data-srcset'' (Find doc ''picture img'') [] in
                 if imageURL \<noteq> [] then Inr imageURL
                 else
                   let imageURL = eachAttr ''data-src'' (Find doc ''span.lg-gallery'') imageURL in
                   if imageURL \<noteq> [] then Inr imageURL
                   else
                     let imageURL =
                           eachAttr ''content'' (Find doc ''meta[property='og:image']'') imageURL in
                     if imageURL \<noteq> [] then Inr imageURL
                     else
                       let imageURL =
                             eachAttr ''src'' (Find doc ''article img, div.section-media img'')
                               imageURL in
                       if imageURL \<noteq> [] then Inr imageURL
                       else Inl (Errorf (''no image found on page: '' @ url))))"

text \<open>
  The loop over the indices of the slice touches only the article at the current index,
  so it is a recursion over the list. A failed scrape leaves the article as it is.
\<close>

primrec updateMissingImageURLs :: "World \<Rightarrow> NewsArticle list \<Rightarrow> NewsArticle list" where
  "updateMissingImageURLs w [] = []"
| "updateMissingImageURLs w (article # rest) =
     (if ImageURL article = [] then
        (case scrapeImageFromURL w (URL article) of
           Inl err \<Rightarrow> article
         | Inr imageURL \<Rightarrow> article \<lparr> ImageURL := imageURL \<rparr>)
      else article) # updateMissingImageURLs w rest"


section \<open>The listing crawl and the handlers\<close>

definition fetchTheDailyStarWithColly :: "World \<Rightarrow> string \<Rightarrow> error + NewsArticle list" where
  "fetchTheDailyStarWithColly w url =
     (case Visit w url of
        Inl err \<Rightarrow> Inl (Errorf (''failed to visit: '' @ errorString err))
      | Inr containers \<Rightarrow>
          let st = foldl (\<lambda>st e. onHTML w e st) \<lparr> articles = [], articleID = 0 \<rparr> containers
          in Inr (updateMissingImageURLs w (articles st)))"

definition fetchNewsFromSource :: "World \<Rightarrow> string \<Rightarrow> string \<Rightarrow> error + NewsArticle list" where
  "fetchNewsFromSource w sourceName url =
     (if sourceName = ''thedailystar'' then fetchTheDailyStarWithColly w url
      else Inl (Errorf (''unsupported source: '' @ sourceName)))"

text \<open>What a handler passes to \<^verbatim>\<open>c.JSON\<close>: the status code and the payload.\<close>

datatype Payload = NewsJSON NewsResponse | ErrorJSON ErrorResponse

text \<open>The registry that \<open>NewNewsService\<close> builds.\<close>

definition NewNewsService :: "string \<rightharpoonup> Source" where
  "NewNewsService =
     [''thedailystar'' \<mapsto>
        \<lparr> Name = ''thedailystar'', DisplayName = ''The Daily Star'',
          URL_Source = ''https://www.thedailystar.net/'', Active = True \<rparr>]"

text \<open>
  The body of one goroutine of \<open>GetAllNews\<close>: what it sends on the channel.
\<close>

definition sendNews :: "World \<Rightarrow> string \<Rightarrow> Source \<Rightarrow> NewsArticle list" where
  "sendNews w sourceName source =
     (case fetchNewsFromSource w sourceName (URL_Source source) of
        Inl err \<Rightarrow> []
      | Inr news \<Rightarrow> news)"

text \<open>
  \<open>GetAllNews\<close> starts one goroutine for each active source of the registry and appends
  what arrives on the channel, in the order of arrival. That order is not fixed by the
  program: \<open>order\<close> lists the names of the registry in the order in which their results
  arrive, and the names of inactive or unknown sources in it are passed over, as the
  \<^verbatim>\<open>continue\<close> of the loop does.
\<close>

primrec collectNews :: "World \<Rightarrow> (string \<rightharpoonup> Source) \<Rightarrow> string list \<Rightarrow> NewsArticle list" where
  "collectNews w sources [] = []"
| "collectNews w sources (name # rest) =
     (case sources name of
        None \<Rightarrow> collectNews w sources rest
      | Some source \<Rightarrow>
          if \<not> Active source then collectNews w sources rest
          else sendNews w name source @ collectNews w sources rest)"

definition GetAllNews :: "World \<Rightarrow> (string \<rightharpoonup> Source) \<Rightarrow> string list \<Rightarrow> nat \<times> Payload" where
  "GetAllNews w sources order =
     (let allArticles = collectNews w sources order in
      (StatusOK, NewsJSON \<lparr> Success = True, Data = allArticles,
                            Count = int (length allArticles), Source_NewsResponse = [] \<rparr>))"

definition GetNewsBySource :: "World \<Rightarrow> (string \<rightharpoonup> Source) \<Rightarrow> string \<Rightarrow> nat \<times> Payload" where
  "GetNewsBySource w sources sourceName =
     (case sources sourceName of
        None \<Rightarrow>
          (StatusNotFound, ErrorJSON \<lparr> Success_ErrorResponse = False,
             Error = ''source_not_found'', Message = ''News source not found'' \<rparr>)
      | Some source \<Rightarrow>
          if \<not> Active source then
            (StatusBadRequest, ErrorJSON \<lparr> Success_ErrorResponse = False,
               Error = ''source_inactive'', Message = ''News source is currently inactive'' \<rparr>)
          else
            (case fetchNewsFromSource w sourceName (URL_Source source) of
               Inl err \<Rightarrow>
                 (StatusInternalServerError, ErrorJSON \<lparr> Success_ErrorResponse = False,
                    Error = ''fetch_error'',
                    Message = ''Failed to fetch news: '' @ errorString err \<rparr>)
             | Inr news \<Rightarrow>
                 (StatusOK, NewsJSON \<lparr> Success = True, Data = news,
                    Count = int (length news), Source_NewsResponse = sourceName \<rparr>)))"


section \<open>The enrichment pass of package handler\<close>

text \<open>
  The repository holds a second copy of the service, in package \<^verbatim>\<open>handler\<close>, whose
  listing crawl calls \<open>updateArticleDetails\<close> where the copy above calls
  \<open>updateMissingImageURLs\<close>. It scrapes the description of the article page as well:
  the \<^verbatim>\<open>content\<close> of the Open Graph description, then of the description meta tag, then
  the first paragraph of more than 50 bytes.
\<close>

primrec eachContent :: "Selection list \<Rightarrow> string \<Rightarrow> string" where
  "eachContent [] description = description"
| "eachContent (s # rest) description =
     eachContent rest
       (case Attr s ''content'' of
          Some content \<Rightarrow> (if description = [] then TrimSpace content else description)
        | None \<Rightarrow> description)"

primrec eachParagraph :: "Selection list \<Rightarrow> string \<Rightarrow> string" where
  "eachParagraph [] description = description"
| "eachParagraph (s # rest) description =
     eachParagraph rest
       (let pText = TrimSpace (Text s) in
        if length pText > 50 \<and> description = [] then pText else description)"

definition scrapeArticleDetailsFromURL :: "World \<Rightarrow> string \<Rightarrow> error + string \<times> string" where
  "scrapeArticleDetailsFromURL w url =
     (case Get w url of
        NewRequestFailed err \<Rightarrow> Inl (Errorf (''failed to create request: '' @ errorString err))
      | DoFailed err \<Rightarrow>
          Inl (Errorf (''failed to fetch URL '' @ url @ '': '' @ errorString err))
      | Response StatusCode body \<Rightarrow>
          if StatusCode \<noteq> StatusOK
          then Inl (Errorf (''unexpected status code: '' @ Itoa StatusCode))
          else
            (case body of
               Inl err \<Rightarrow> Inl (Errorf (''failed to parse HTML: '' @ errorString err))
             | Inr doc \<Rightarrow>
                 let imageURL = eachAttr ''data-srcset'' (Find doc ''picture img'') [];
                     imageURL = (if imageURL = []
                        then eachAttr ''data-src'' (Find doc ''span.lg-gallery'') imageURL
                        else imageURL);
                     imageURL = (if imageURL = []
                        then eachAttr ''content'' (Find doc ''meta[property='og:image']'') imageURL
                        else imageURL);
                     imageURL = (if imageURL = []
                        then eachAttr ''src'' (Find doc ''article img, div.section-media img'')
                               imageURL
                        else imageURL);
                     description =
                       eachContent (Find doc ''meta[property='og:description']'') [];
                     description = (if description = []
                        then eachContent (Find doc ''meta[name='description']'') description
                        else description);
                     description = (if description = []
                        then eachParagraph
                               (Find doc
                                  ''.article__content p, .article-body p, .paragraph, .zn-body__paragraph'')
                               description
                        else description);
                     description = (if description \<noteq> [] \<and> length description > 200
                        then take 200 description @ ''...'' else description)
                 in Inr (imageURL, description)))"

primrec updateArticleDetails :: "World \<Rightarrow> NewsArticle list \<Rightarrow> NewsArticle list" where
  "updateArticleDetails w [] = []"
| "updateArticleDetails w (article # rest) =
     (if ImageURL article = [] \<or> Description article = [] then
        (case scrapeArticleDetailsFromURL w (URL article) of
           Inl err \<Rightarrow> article
         | Inr (imageURL, description) \<Rightarrow>
             let article = (if ImageURL article = [] \<and> imageURL \<noteq> []
                            then article \<lparr> ImageURL := imageURL \<rparr> else article);
                 article = (if Description article = [] \<and> description \<noteq> []
                            then article \<lparr> Description := description \<rparr> else article)
             in article)
      else article) # updateArticleDetails w rest"


section \<open>Vocabulary of the statements\<close>

text \<open>
  The article list of a source of the registry that is active and whose scrape returns
  without error; \<open>None\<close> for every other name.
\<close>

definition successfulScrape :: "World \<Rightarrow> (string \<rightharpoonup> Source) \<Rightarrow> string \<Rightarrow> NewsArticle list option" where
  "successfulScrape w sources name =
     (case sources name of
        None \<Rightarrow> None
      | Some source \<Rightarrow>
          if Active source then
            (case fetchNewsFromSource w name (URL_Source source) of
               Inl err \<Rightarrow> None
             | Inr news \<Rightarrow> Some news)
          else None)"


text \<open>The first non-empty text of a list of candidates, or the empty text.\<close>

definition firstNonEmpty :: "string list \<Rightarrow> string" where
  "firstNonEmpty texts = (case filter (\<lambda>t. t \<noteq> []) texts of [] \<Rightarrow> [] | t # _ \<Rightarrow> t)"


section \<open>A concrete front page\<close>

text \<open>
  A small world on which the definitions can be run. Relative links are resolved against
  the origin of the entry page; the front page has five containers, the second a repeat
  of the first; only one article page answers.
\<close>

definition exampleRequest :: Request where
  "exampleRequest =
     \<lparr> AbsoluteURL = (\<lambda>u. if HasPrefix u ''https://'' then u
                            else ''https://www.thedailystar.net'' @ u) \<rparr>"

definition element :: "(string \<times> string) list \<Rightarrow> ((string \<times> string) \<times> string) list \<Rightarrow> HTMLElement" where
  "element texts attrs =
     \<lparr> ChildText = (\<lambda>selector. case map_of texts selector of Some t \<Rightarrow> t | None \<Rightarrow> []),
       ChildAttr = (\<lambda>selector attr. case map_of attrs (selector, attr) of Some v \<Rightarrow> v | None \<Rightarrow> []),
       Request = exampleRequest \<rparr>"

definition floodTeaser :: HTMLElement where
  "floodTeaser = element
     [(''h2'', ''Flood waters rise in Sylhet''), (''.headline'', ''Sports'')]
     [((''a'', ''href''), ''/news/bangladesh/2024/flood-story''),
      ((''img'', ''src''), ''https://www.thedailystar.net/a.jpg''),
      ((''img'', ''data-srcset''), ''https://www.thedailystar.net/b.jpg'')]"

definition helloTeaser :: HTMLElement where
  "helloTeaser = element
     [(''h3'', ''Hello, world of news today'')]
     [((''a'', ''href''), ''/news/world/2024/hello-story'')]"

definition sectionTeaser :: HTMLElement where
  "sectionTeaser = element
     [(''h3'', ''All the news of the day'')]
     [((''a'', ''href''), ''/news'')]"

definition aboutTeaser :: HTMLElement where
  "aboutTeaser = element
     [(''h3'', ''About this newspaper'')]
     [((''a'', ''href''), ''/about'')]"

text \<open>Two containers whose image has no \<open>src\<close> attribute.\<close>

definition lazyTeaser :: HTMLElement where
  "lazyTeaser = element
     [(''h2'', ''Lazy loading comes to the newsroom'')]
     [((''a'', ''href''), ''/business/economy/2024/lazy-story''),
      ((''img'', ''data-src''), ''https://www.thedailystar.net/x.jpg''),
      ((''img'', ''data-srcset''), ''https://www.thedailystar.net/y.jpg'')]"

definition srcsetTeaser :: HTMLElement where
  "srcsetTeaser = element
     [(''h2'', ''Responsive images for every reader'')]
     [((''a'', ''href''), ''/business/economy/2024/srcset-story''),
      ((''img'', ''data-srcset''), ''https://www.thedailystar.net/y.jpg'')]"

text \<open>A container whose only title text is a section label under the last selector.\<close>

definition sportsTeaser :: HTMLElement where
  "sportsTeaser = element
     [(''.headline'', ''Sports'')]
     [((''a'', ''href''), ''/sports/cricket/2024/final-report'')]"

text \<open>
  An article page with one \<^verbatim>\<open><picture><img data-srcset=...>\<close> and one
  \<^verbatim>\<open><meta property="og:description" content=...>\<close>.
\<close>

definition articlePage :: "string \<Rightarrow> string \<Rightarrow> Document" where
  "articlePage srcset summary =
     \<lparr> Find = (\<lambda>selector.
         if selector = ''picture img''
         then [\<lparr> Attr = [''data-srcset'' \<mapsto> srcset], Text = [] \<rparr>]
         else if selector = ''meta[property='og:description']''
         then [\<lparr> Attr = [''content'' \<mapsto> summary], Text = [] \<rparr>]
         else []) \<rparr>"

definition floodURL :: string where
  "floodURL = ''https://www.thedailystar.net/news/bangladesh/2024/flood-story''"

definition helloURL :: string where
  "helloURL = ''https://www.thedailystar.net/news/world/2024/hello-story''"

definition exampleWorld :: World where
  "exampleWorld =
     \<lparr> Visit = (\<lambda>url. if url = ''https://www.thedailystar.net/''
                      then Inr [floodTeaser, floodTeaser, helloTeaser, sectionTeaser, aboutTeaser]
                      else Inl (Errorf ''Not Found'')),
       Get = (\<lambda>url. if url = helloURL
                    then Response 200 (Inr (articlePage ''/sites/default/files/hello.jpg''
                                              ''Hello to the world''))
                    else if url = floodURL
                    then Response 200 (Inr (articlePage ''https://www.thedailystar.net/flood.jpg''
                                              ''Rivers overflow in Sylhet''))
                    else DoFailed (Errorf ''context deadline exceeded'')),
       Now = (\<lambda>n. 1000 + n) \<rparr>"

text \<open>The two articles that the callback builds on this front page.\<close>

definition floodArticle :: NewsArticle where
  "floodArticle =
     \<lparr> ID = ''dailystar_0'', Title = ''Flood waters rise in Sylhet'', Description = [],
       ImageURL = ''https://www.thedailystar.net/a.jpg'',
       URL = floodURL,
       Source = ''thedailystar'', PublishedAt = 1000, Category = [] \<rparr>"

definition helloArticle :: NewsArticle where
  "helloArticle =
     \<lparr> ID = ''dailystar_1'', Title = ''Hello'', Description = [],
       ImageURL = [],
       URL = helloURL,
       Source = ''thedailystar'', PublishedAt = 1001, Category = [] \<rparr>"

text \<open>The second article after the enrichment pass.\<close>

definition helloEnriched :: NewsArticle where
  "helloEnriched = helloArticle \<lparr> ImageURL := ''/sites/default/files/hello.jpg'' \<rparr>"

text \<open>An article that the listing pass has populated in full.\<close>

definition populatedArticle :: NewsArticle where
  "populatedArticle = floodArticle \<lparr> Description := ''Water levels keep rising'' \<rparr>"

text \<open>A world in which the entry page cannot be fetched.\<close>

definition offlineWorld :: World where
  "offlineWorld = exampleWorld \<lparr> Visit := (\<lambda>url. Inl (Errorf ''connection refused'')) \<rparr>"

text \<open>A registry with a second active source, for which the service has no scraper.\<close>

definition twoSources :: "string \<rightharpoonup> Source" where
  "twoSources =
     NewNewsService(''cnn'' \<mapsto>
        \<lparr> Name = ''cnn'', DisplayName = ''CNN'',
          URL_Source = ''https://edition.cnn.com/'', Active = True \<rparr>)"


section \<open>Facts about the string functions\<close>

lemma Index_ge: "- 1 \<le> Index s substr"
  by (induction s) (auto simp: Let_def)

lemma HasPrefix_length: "HasPrefix s p \<Longrightarrow> length p \<le> length s"
  by (induction s p rule: HasPrefix.induct) auto

lemma HasPrefix_append: "HasPrefix s p \<Longrightarrow> s = p @ drop (length p) s"
  by (induction s p rule: HasPrefix.induct) auto

lemma Index_bound: "0 \<le> Index s substr \<Longrightarrow> nat (Index s substr) + length substr \<le> length s"
proof (induction s)
  case Nil
  then show ?case by (auto split: if_splits)
next
  case (Cons c cs)
  show ?case
  proof (cases "HasPrefix (c # cs) substr")
    case True
    then show ?thesis using HasPrefix_length [OF True] by simp
  next
    case False
    with Cons.prems have "0 \<le> Index cs substr"
      using Index_ge [of cs substr] by (auto simp: Let_def split: if_splits)
    with Cons.IH False show ?thesis
      by (auto simp: Let_def nat_add_distrib)
  qed
qed

lemma Contains_Cons:
  "Contains (c # cs) substr \<longleftrightarrow> HasPrefix (c # cs) substr \<or> Contains cs substr"
  using Index_ge [of cs substr] by (auto simp: Contains_def Let_def)

lemma Split_not_Nil: "sep \<noteq> [] \<Longrightarrow> Split s sep \<noteq> []"
  by (subst Split.simps) (simp add: Let_def)

lemma length_ReplaceAll:
  "length old = length new \<Longrightarrow> length (ReplaceAll s old new) = length s"
proof (induction s old new rule: ReplaceAll.induct)
  case (1 s old new)
  show ?case
  proof (cases "old = []")
    case True
    with "1.prems" have "new = []" by simp
    with True show ?thesis
      by (subst ReplaceAll.simps) (simp add: length_concat comp_def sum_list_triv)
  next
    case False
    show ?thesis
    proof (cases "Index s old < 0")
      case True
      with False show ?thesis by (subst ReplaceAll.simps) simp
    next
      case found: False
      then have "nat (Index s old) + length old \<le> length s"
        by (intro Index_bound) simp
      moreover from "1.IH" [OF False refl found "1.prems"]
      have "length (ReplaceAll (drop (nat (Index s old) + length old) s) old new)
          = length s - (nat (Index s old) + length old)"
        by simp
      ultimately show ?thesis
        using False found "1.prems" by (subst ReplaceAll.simps) (simp add: Let_def)
    qed
  qed
qed

lemma isSpace_not_Nil: "isSpace r \<Longrightarrow> r \<noteq> []"
  by (auto simp: isSpace_def unicodeSpaces_def)

lemma concat_runes: "concat (runes s) = s"
proof (induction s rule: runes.induct)
  case (1 s)
  show ?case
  proof (cases "s = []")
    case True
    then show ?thesis by (subst runes.simps) simp
  next
    case False
    show ?thesis
    proof (cases "spaceWidth s = 0")
      case True
      with False "1.IH"(1) show ?thesis
        by (subst runes.simps) (cases s, auto)
    next
      case wide: False
      with False "1.IH"(2) show ?thesis
        by (subst runes.simps) simp
    qed
  qed
qed

lemma length_concat_dropWhile:
  "length (concat (dropWhile P xs)) \<le> length (concat xs)"
  by (induction xs) auto

lemma set_concat_dropWhile:
  "set (concat (dropWhile P xs)) \<subseteq> set (concat xs)"
  by (induction xs) auto

lemma length_TrimSpace: "length (TrimSpace s) \<le> length s"
proof -
  let ?left = "dropWhile isSpace (runes s)"
  have "length (concat (rev (dropWhile isSpace (rev ?left))))
      = length (concat (dropWhile isSpace (rev ?left)))"
    by (simp add: length_concat rev_map [symmetric])
  also have "\<dots> \<le> length (concat (rev ?left))"
    by (rule length_concat_dropWhile)
  also have "\<dots> = length (concat ?left)"
    by (simp add: length_concat rev_map [symmetric])
  also have "\<dots> \<le> length (concat (runes s))"
    by (rule length_concat_dropWhile)
  finally show ?thesis
    by (simp add: TrimSpace_def concat_runes)
qed

lemma set_TrimSpace: "set (TrimSpace s) \<subseteq> set s"
proof -
  let ?left = "dropWhile isSpace (runes s)"
  have "set (concat (rev (dropWhile isSpace (rev ?left))))
      = set (concat (dropWhile isSpace (rev ?left)))"
    by auto
  also have "\<dots> \<subseteq> set (concat (rev ?left))"
    by (rule set_concat_dropWhile)
  also have "\<dots> = set (concat ?left)"
    by auto
  also have "\<dots> \<subseteq> set (concat (runes s))"
    by (rule set_concat_dropWhile)
  finally show ?thesis
    by (simp add: TrimSpace_def concat_runes)
qed

lemma length_Join_Cons:
  "length (Join (x # xs) sep) \<le> length x + length sep + length (Join xs sep)"
  by (cases xs) auto

lemma length_Join_fieldsFrom:
  "length (Join (fieldsFrom cur rs) '' '') \<le> length cur + length (concat rs)"
proof (induction rs arbitrary: cur)
  case Nil
  then show ?case by simp
next
  case (Cons r rs)
  show ?case
  proof (cases "isSpace r")
    case True
    then have wide: "1 \<le> length r"
      using isSpace_not_Nil [OF True] by (cases r) auto
    show ?thesis
    proof (cases "cur = []")
      case True
      with \<open>isSpace r\<close> Cons.IH [of "[]"] show ?thesis by simp
    next
      case False
      have "length (Join (cur # fieldsFrom [] rs) '' '')
          \<le> length cur + length '' '' + length (Join (fieldsFrom [] rs) '' '')"
        by (rule length_Join_Cons)
      with False \<open>isSpace r\<close> wide Cons.IH [of "[]"] show ?thesis by simp
    qed
  next
    case False
    with Cons.IH [of "cur @ r"] show ?thesis by simp
  qed
qed

lemma length_truncateAt: "length (truncateAt title mark) \<le> length title"
proof (cases "Index title mark = - 1")
  case True
  then show ?thesis by (simp add: truncateAt_def)
next
  case False
  have "length (TrimSpace (take (nat (Index title mark)) title))
      \<le> length (take (nat (Index title mark)) title)"
    by (rule length_TrimSpace)
  with False show ?thesis by (simp add: truncateAt_def Let_def)
qed

lemma length_cleanTitle: "length (cleanTitle title) \<le> length title"
proof -
  let ?a = "ReplaceAll title [CHR 0x0A] '' ''"
  let ?b = "ReplaceAll ?a [CHR 0x0D] '' ''"
  let ?c = "ReplaceAll ?b [CHR 0x09] '' ''"
  let ?d = "Join (Fields ?c) '' ''"
  have "length ?c = length title"
    by (simp add: length_ReplaceAll)
  moreover have "length ?d \<le> length ?c"
    using length_Join_fieldsFrom [of "[]" "runes ?c"] by (simp add: Fields_def concat_runes)
  moreover have "length (truncateAt (truncateAt ?d '','') ''.'') \<le> length ?d"
    using length_truncateAt [of "truncateAt ?d '',''" "''.''"] length_truncateAt [of ?d "'',''"]
    by linarith
  ultimately show ?thesis
    by (simp add: cleanTitle_def Let_def)
qed

lemma selectTitle_find:
  "find (\<lambda>selector. 10 \<le> length (TrimSpace (ChildText e selector))) selectors = Some selector
   \<Longrightarrow> selectTitle e selectors title = TrimSpace (ChildText e selector)"
  by (induction selectors arbitrary: title) (auto simp: Let_def split: if_splits)

lemma notNewsLink_TrimPrefix:
  "notNewsLink (TrimPrefix link ''https://www.thedailystar.net'') = notNewsLink link"
proof (cases "HasPrefix link ''https://www.thedailystar.net''")
  case True
  from HasPrefix_append [OF True] obtain path where
    link: "link = ''https://www.thedailystar.net'' @ path"
      and path: "TrimPrefix link ''https://www.thedailystar.net'' = path"
    using True by (auto simp: TrimPrefix_def)
  show ?thesis
    unfolding path unfolding link notNewsLink_def
    by (simp add: Contains_Cons)
next
  case False
  then show ?thesis by (simp add: TrimPrefix_def)
qed


lemma take_Index_single: "c \<notin> set (take (nat (Index s [c])) s)"
proof (induction s)
  case Nil
  then show ?case by simp
next
  case (Cons x xs)
  show ?case
  proof (cases "x = c")
    case True
    then show ?thesis by simp
  next
    case False
    show ?thesis
    proof (cases "Index xs [c] = - 1")
      case True
      with False show ?thesis by (simp add: Let_def)
    next
      case found: False
      with Index_ge [of xs "[c]"] have "0 \<le> Index xs [c]" by linarith
      then have "nat (Index xs [c] + 1) = Suc (nat (Index xs [c]))" by simp
      with False found Cons.IH show ?thesis by (simp add: Let_def)
    qed
  qed
qed

lemma Index_single_absent: "Index s [c] = - 1 \<Longrightarrow> c \<notin> set s"
proof (induction s)
  case Nil
  then show ?case by simp
next
  case (Cons x xs)
  from Cons.prems have "x \<noteq> c"
    by (auto split: if_splits)
  moreover from Cons.prems Index_ge [of xs "[c]"] have "Index xs [c] = - 1"
    by (auto simp: Let_def split: if_splits)
  ultimately show ?case
    using Cons.IH by simp
qed

lemma set_truncateAt: "set (truncateAt title mark) \<subseteq> set title"
proof (cases "Index title mark = - 1")
  case True
  then show ?thesis by (simp add: truncateAt_def)
next
  case False
  have "set (TrimSpace (take (nat (Index title mark)) title))
      \<subseteq> set (take (nat (Index title mark)) title)"
    by (rule set_TrimSpace)
  also have "\<dots> \<subseteq> set title"
    by (rule set_take_subset)
  finally show ?thesis
    using False by (simp add: truncateAt_def Let_def)
qed

lemma truncateAt_single: "c \<notin> set (truncateAt title [c])"
proof (cases "Index title [c] = - 1")
  case True
  then show ?thesis by (simp add: truncateAt_def Index_single_absent)
next
  case False
  have "set (TrimSpace (take (nat (Index title [c])) title))
      \<subseteq> set (take (nat (Index title [c])) title)"
    by (rule set_TrimSpace)
  with take_Index_single [of c title] False show ?thesis
    by (auto simp: truncateAt_def Let_def)
qed

lemma cleanTitle_marks:
  "CHR '','' \<notin> set (cleanTitle title) \<and> CHR ''.'' \<notin> set (cleanTitle title)"
proof -
  let ?d = "Join (Fields (ReplaceAll (ReplaceAll (ReplaceAll title [CHR 0x0A] '' '')
              [CHR 0x0D] '' '') [CHR 0x09] '' '')) '' ''"
  have clean: "cleanTitle title = truncateAt (truncateAt ?d '','') ''.''"
    by (simp add: cleanTitle_def Let_def)
  have "CHR '','' \<notin> set (truncateAt ?d '','')"
    by (rule truncateAt_single)
  with set_truncateAt [of "truncateAt ?d '',''" "''.''"]
  have "CHR '','' \<notin> set (truncateAt (truncateAt ?d '','') ''.'')"
    by blast
  moreover have "CHR ''.'' \<notin> set (truncateAt (truncateAt ?d '','') ''.'')"
    by (rule truncateAt_single)
  ultimately show ?thesis
    unfolding clean by simp
qed


section \<open>What the callback checks before it appends\<close>

lemma duplicateURL_iff: "duplicateURL news link \<longleftrightarrow> link \<in> set (map URL news)"
  by (induction news) auto

lemma candidate_SomeD:
  assumes "candidate w e st = Some article"
  shows "length (articles st) < 10"
    and "selectTitle e titleSelectors [] \<noteq> []"
    and "Title article = cleanTitle (selectTitle e titleSelectors [])"
    and "ChildAttr e ''a'' ''href'' \<noteq> []"
    and "URL article = AbsoluteURL (Request e) (ChildAttr e ''a'' ''href'')"
    and "\<not> categoryLink (URL article)"
    and "\<not> notNewsLink (URL article)"
    and "URL article \<notin> set (map URL (articles st))"
    and "ImageURL article = extractImageURL e"
    and "Description article = extractDescription e"
  using assms
  by (auto simp: candidate_def Let_def duplicateURL_iff split: if_splits)

lemma onHTML_distinct:
  "distinct (map URL (articles st)) \<Longrightarrow> distinct (map URL (articles (onHTML w e st)))"
  by (auto simp: onHTML_def dest: candidate_SomeD(8) split: option.splits)

lemma foldl_onHTML_distinct:
  "distinct (map URL (articles st)) \<Longrightarrow>
   distinct (map URL (articles (foldl (\<lambda>st e. onHTML w e st) st containers)))"
  by (induction containers arbitrary: st) (auto simp: onHTML_distinct)

lemma updateMissingImageURLs_URL:
  "map URL (updateMissingImageURLs w news) = map URL news"
  by (induction news) (auto split: sum.splits)

lemma updateMissingImageURLs_populated:
  "\<forall>article\<in>set news. ImageURL article \<noteq> [] \<Longrightarrow> updateMissingImageURLs w news = news"
  by (induction news) auto

lemma collectNews_successful:
  "collectNews w sources order = concat (List.map_filter (successfulScrape w sources) order)"
  by (induction order)
     (auto simp: List.map_filter_simps successfulScrape_def sendNews_def
           split: option.splits sum.splits)

lemma fetchTheDailyStarWithColly_Inl:
  "fetchTheDailyStarWithColly w url = Inl err \<longleftrightarrow>
     (\<exists>cause. Visit w url = Inl cause \<and> err = Errorf (''failed to visit: '' @ errorString cause))"
  by (auto simp: fetchTheDailyStarWithColly_def Let_def split: sum.splits)

lemma selectImageAttr_first:
  "selectImageAttr e attrs cur =
     (case find (\<lambda>attr. ChildAttr e ''img'' attr \<noteq> []) attrs of
        Some attr \<Rightarrow> ChildAttr e ''img'' attr
      | None \<Rightarrow> if attrs = [] then cur else [])"
  by (induction attrs arbitrary: cur) (auto simp: Let_def split: option.splits)

lemma firstNonEmpty_Nil: "firstNonEmpty [] = []"
  by (simp add: firstNonEmpty_def)

lemma firstNonEmpty_Cons:
  "firstNonEmpty (t # ts) = (if t \<noteq> [] then t else firstNonEmpty ts)"
  by (simp add: firstNonEmpty_def)

lemma firstNonEmpty_append:
  "firstNonEmpty (ts @ us) = (if firstNonEmpty ts \<noteq> [] then firstNonEmpty ts else firstNonEmpty us)"
  by (induction ts) (auto simp: firstNonEmpty_Nil firstNonEmpty_Cons)

lemma eachAttr_first:
  "eachAttr name sels cur =
     (if cur \<noteq> [] then cur else firstNonEmpty (List.map_filter (\<lambda>s. Attr s name) sels))"
  by (induction sels arbitrary: cur)
     (auto simp: firstNonEmpty_Nil firstNonEmpty_Cons split: option.splits)

lemma eachContent_first:
  "eachContent sels cur =
     (if cur \<noteq> [] then cur
      else firstNonEmpty (map TrimSpace (List.map_filter (\<lambda>s. Attr s ''content'') sels)))"
  by (induction sels arbitrary: cur)
     (auto simp: firstNonEmpty_Nil firstNonEmpty_Cons split: option.splits)

lemma eachParagraph_first:
  "eachParagraph sels cur =
     (if cur \<noteq> [] then cur
      else firstNonEmpty (filter (\<lambda>p. 50 < length p) (map (\<lambda>s. TrimSpace (Text s)) sels)))"
  by (induction sels arbitrary: cur)
     (auto simp: Let_def firstNonEmpty_Nil firstNonEmpty_Cons)


section \<open>Deduplication\<close>

text \<open>
  C1. In the output of a listing crawl of one source no two articles have the same \<open>URL\<close>;
  and a container whose resolved link is the \<open>URL\<close> of an article accepted earlier in the
  run is rejected by the callback, which leaves the state as it was.
\<close>

theorem listing_urls_distinct:
  assumes "fetchTheDailyStarWithColly w url = Inr news"
  shows "distinct (map URL news)
     \<and> (\<forall>e st. AbsoluteURL (Request e) (ChildAttr e ''a'' ''href'') \<in> set (map URL (articles st))
           \<longrightarrow> onHTML w e st = st)"
proof
  from assms obtain containers where
    news: "news = updateMissingImageURLs w
             (articles (foldl (\<lambda>st e. onHTML w e st) \<lparr> articles = [], articleID = 0 \<rparr> containers))"
    by (auto simp: fetchTheDailyStarWithColly_def Let_def split: sum.splits)
  have "distinct (map URL (articles
          (foldl (\<lambda>st e. onHTML w e st) \<lparr> articles = [], articleID = 0 \<rparr> containers)))"
    by (rule foldl_onHTML_distinct) simp
  with news show "distinct (map URL news)"
    by (simp only: updateMissingImageURLs_URL)
next
  show "\<forall>e st. AbsoluteURL (Request e) (ChildAttr e ''a'' ''href'') \<in> set (map URL (articles st))
           \<longrightarrow> onHTML w e st = st"
  proof (intro allI impI)
    fix e :: HTMLElement and st :: CrawlState
    assume dup: "AbsoluteURL (Request e) (ChildAttr e ''a'' ''href'') \<in> set (map URL (articles st))"
    have "candidate w e st = None"
    proof (cases "candidate w e st")
      case (Some article)
      from candidate_SomeD(5)[OF Some] candidate_SomeD(8)[OF Some] dup show ?thesis by simp
    qed simp
    then show "onHTML w e st = st" by (simp add: onHTML_def)
  qed
qed

theorem listing_urls_distinct_witness:
  "fetchTheDailyStarWithColly exampleWorld ''https://www.thedailystar.net/''
      = Inr [floodArticle, helloEnriched]
   \<and> distinct (map URL [floodArticle, helloEnriched])
   \<and> onHTML exampleWorld floodTeaser \<lparr> articles = [floodArticle], articleID = 1 \<rparr>
      = \<lparr> articles = [floodArticle], articleID = 1 \<rparr>"
proof -
  have run: "fetchTheDailyStarWithColly exampleWorld ''https://www.thedailystar.net/''
      = Inr [floodArticle, helloEnriched]"
    by code_simp
  have dup: "AbsoluteURL (Request floodTeaser) (ChildAttr floodTeaser ''a'' ''href'')
      \<in> set (map URL (articles \<lparr> articles = [floodArticle], articleID = 1 \<rparr>))"
    by code_simp
  from listing_urls_distinct [OF run] dup run show ?thesis by blast
qed


section \<open>Titles\<close>

text \<open>
  C2, as the specification states it, fails: the length of the title is tested on the
  trimmed text of the selector, before the white space is normalised and before the text
  is cut at the first comma and the first period. The third container of the example
  front page has the heading \<open>Hello, world of news today\<close> and is emitted with the
  title \<open>Hello\<close>, of length 5.
\<close>

theorem title_floor_counterexample:
  "candidate exampleWorld helloTeaser \<lparr> articles = [floodArticle], articleID = 1 \<rparr>
      = Some helloArticle
   \<and> Title helloArticle = ''Hello'' \<and> length (Title helloArticle) = 5"
  by code_simp

text \<open>
  C2, amended. When the callback emits an article and some title selector yields a
  trimmed text of at least 10 bytes, the title comes from the first such selector: that
  text has at least 10 bytes before it is cleaned, and the stored title is the text after
  normalisation and truncation, which is never longer than the text and holds neither a
  comma nor a period.
\<close>

theorem title_floor_before_cleaning:
  assumes "candidate w e st = Some article"
    and "find (\<lambda>selector. 10 \<le> length (TrimSpace (ChildText e selector))) titleSelectors
           = Some selector"
  shows "10 \<le> length (TrimSpace (ChildText e selector))
     \<and> Title article = cleanTitle (TrimSpace (ChildText e selector))
     \<and> length (Title article) \<le> length (TrimSpace (ChildText e selector))
     \<and> CHR '','' \<notin> set (Title article) \<and> CHR ''.'' \<notin> set (Title article)"
proof -
  from assms(2) have "10 \<le> length (TrimSpace (ChildText e selector))"
    by (auto simp: find_Some_iff)
  moreover from candidate_SomeD(3) [OF assms(1)] selectTitle_find [OF assms(2)]
  have "Title article = cleanTitle (TrimSpace (ChildText e selector))"
    by simp
  ultimately show ?thesis
    using cleanTitle_marks [of "TrimSpace (ChildText e selector)"]
    by (simp add: length_cleanTitle)
qed

theorem title_floor_before_cleaning_witness:
  "candidate exampleWorld helloTeaser \<lparr> articles = [floodArticle], articleID = 1 \<rparr>
      = Some helloArticle
   \<and> find (\<lambda>selector. 10 \<le> length (TrimSpace (ChildText helloTeaser selector))) titleSelectors
      = Some ''h3''
   \<and> 10 \<le> length (TrimSpace (ChildText helloTeaser ''h3''))
   \<and> Title helloArticle = cleanTitle (TrimSpace (ChildText helloTeaser ''h3''))
   \<and> length (Title helloArticle) \<le> length (TrimSpace (ChildText helloTeaser ''h3''))
   \<and> CHR '','' \<notin> set (Title helloArticle) \<and> CHR ''.'' \<notin> set (Title helloArticle)"
proof -
  have emitted: "candidate exampleWorld helloTeaser \<lparr> articles = [floodArticle], articleID = 1 \<rparr>
      = Some helloArticle"
    by code_simp
  have first: "find (\<lambda>selector. 10 \<le> length (TrimSpace (ChildText helloTeaser selector)))
      titleSelectors = Some ''h3''"
    by code_simp
  from title_floor_before_cleaning [OF emitted first] emitted first show ?thesis
    by blast
qed

text \<open>
  White space is Unicode white space: a heading with non-breaking spaces is normalised
  to single spaces, and a non-breaking space before the comma is trimmed away.
\<close>

lemma cleanTitle_nbsp:
  "cleanTitle (''Flood'' @ [CHR 0xC2, CHR 0xA0] @ ''waters rise''
       @ [CHR 0xC2, CHR 0xA0, CHR 0xC2, CHR 0xA0] @ ''in Sylhet'')
     = ''Flood waters rise in Sylhet''
   \<and> cleanTitle (''Hello'' @ [CHR 0xC2, CHR 0xA0] @ '', world of news'') = ''Hello''"
  by code_simp

text \<open>
  The theorem above is silent on a container in which no selector passes the test. There
  the loop ends with the text of the last selector, \<open>.headline\<close>, and only the empty
  text is turned away, so a short label is emitted as a title.
\<close>

lemma short_last_selector_text_is_emitted:
  "map_option Title (candidate exampleWorld sportsTeaser \<lparr> articles = [], articleID = 0 \<rparr>)
     = Some ''Sports''"
  by code_simp


section \<open>Images of the listing\<close>

text \<open>
  C3, as the specification states it, fails: the attributes of the image are tried in
  the fixed order of \<open>imageAttrs\<close>, in which \<open>src\<close> comes first. The first container of
  the example front page carries both \<open>src\<close> and \<open>data-srcset\<close>; the article gets the
  value of \<open>src\<close>, not the first candidate of \<open>data-srcset\<close>.
\<close>

theorem image_attribute_order_counterexample:
  "candidate exampleWorld floodTeaser \<lparr> articles = [], articleID = 0 \<rparr> = Some floodArticle
   \<and> ChildAttr floodTeaser ''img'' ''src'' = ''https://www.thedailystar.net/a.jpg''
   \<and> ChildAttr floodTeaser ''img'' ''data-srcset'' = ''https://www.thedailystar.net/b.jpg''
   \<and> resolveImageURL floodTeaser (ChildAttr floodTeaser ''img'' ''data-srcset'')
      = ''https://www.thedailystar.net/b.jpg''
   \<and> ImageURL floodArticle = ''https://www.thedailystar.net/a.jpg''"
  by code_simp

text \<open>
  C3, amended. For every container from which an article is emitted, the image of the
  article is the resolved value of the first non-empty attribute of the image in the
  fixed order \<open>src\<close>, \<open>data-src\<close>, \<open>data-lazy-src\<close>, \<open>data-srcset\<close>, \<open>data-original\<close>,
  \<open>data-image\<close>, \<open>data-lazy\<close>, and of the \<open>srcset\<close> of the picture source when all seven
  are empty. So a non-empty \<open>src\<close> is chosen whatever \<open>data-srcset\<close> holds, a non-empty
  \<open>data-src\<close> or \<open>data-lazy-src\<close> is chosen before \<open>data-srcset\<close> as well, and
  \<open>data-srcset\<close> is chosen when it is non-empty and those three are empty.
\<close>

theorem image_attribute_order:
  assumes "candidate w e st = Some article"
  shows "ImageURL article = resolveImageURL e
           (case find (\<lambda>attr. ChildAttr e ''img'' attr \<noteq> [])
                   [''src'', ''data-src'', ''data-lazy-src'', ''data-srcset'', ''data-original'',
                    ''data-image'', ''data-lazy''] of
              Some attr \<Rightarrow> ChildAttr e ''img'' attr
            | None \<Rightarrow> ChildAttr e ''picture source'' ''srcset'')
     \<and> (ChildAttr e ''img'' ''src'' \<noteq> []
            \<longrightarrow> ImageURL article = resolveImageURL e (ChildAttr e ''img'' ''src''))
     \<and> (ChildAttr e ''img'' ''src'' = [] \<and> ChildAttr e ''img'' ''data-src'' \<noteq> []
            \<longrightarrow> ImageURL article = resolveImageURL e (ChildAttr e ''img'' ''data-src''))
     \<and> (ChildAttr e ''img'' ''src'' = [] \<and> ChildAttr e ''img'' ''data-src'' = []
          \<and> ChildAttr e ''img'' ''data-lazy-src'' \<noteq> []
            \<longrightarrow> ImageURL article = resolveImageURL e (ChildAttr e ''img'' ''data-lazy-src''))
     \<and> (ChildAttr e ''img'' ''src'' = [] \<and> ChildAttr e ''img'' ''data-src'' = []
          \<and> ChildAttr e ''img'' ''data-lazy-src'' = [] \<and> ChildAttr e ''img'' ''data-srcset'' \<noteq> []
            \<longrightarrow> ImageURL article = resolveImageURL e (ChildAttr e ''img'' ''data-srcset''))"
proof -
  let ?attrs = "[''src'', ''data-src'', ''data-lazy-src'', ''data-srcset'', ''data-original'',
                 ''data-image'', ''data-lazy'']"
  let ?found = "find (\<lambda>attr. ChildAttr e ''img'' attr \<noteq> []) ?attrs"
  have chosen: "ImageURL article = resolveImageURL e
      (case ?found of Some attr \<Rightarrow> ChildAttr e ''img'' attr
       | None \<Rightarrow> ChildAttr e ''picture source'' ''srcset'')"
  proof (cases ?found)
    case None
    with candidate_SomeD(9) [OF assms] show ?thesis
      by (simp add: extractImageURL_def imageAttrs_def selectImageAttr_first)
  next
    case (Some attr)
    then have "ChildAttr e ''img'' attr \<noteq> []"
      unfolding find_Some_iff by blast
    with Some candidate_SomeD(9) [OF assms] show ?thesis
      by (simp add: extractImageURL_def imageAttrs_def selectImageAttr_first)
  qed
  show ?thesis
  proof (intro conjI impI)
    show "ImageURL article = resolveImageURL e
      (case ?found of Some attr \<Rightarrow> ChildAttr e ''img'' attr
       | None \<Rightarrow> ChildAttr e ''picture source'' ''srcset'')"
      by (rule chosen)
  next
    assume "ChildAttr e ''img'' ''src'' \<noteq> []"
    with chosen show "ImageURL article = resolveImageURL e (ChildAttr e ''img'' ''src'')"
      by simp
  next
    assume "ChildAttr e ''img'' ''src'' = [] \<and> ChildAttr e ''img'' ''data-src'' \<noteq> []"
    with chosen show "ImageURL article = resolveImageURL e (ChildAttr e ''img'' ''data-src'')"
      by simp
  next
    assume "ChildAttr e ''img'' ''src'' = [] \<and> ChildAttr e ''img'' ''data-src'' = []
          \<and> ChildAttr e ''img'' ''data-lazy-src'' \<noteq> []"
    with chosen show "ImageURL article = resolveImageURL e (ChildAttr e ''img'' ''data-lazy-src'')"
      by simp
  next
    assume "ChildAttr e ''img'' ''src'' = [] \<and> ChildAttr e ''img'' ''data-src'' = []
          \<and> ChildAttr e ''img'' ''data-lazy-src'' = [] \<and> ChildAttr e ''img'' ''data-srcset'' \<noteq> []"
    with chosen show "ImageURL article = resolveImageURL e (ChildAttr e ''img'' ''data-srcset'')"
      by simp
  qed
qed

theorem image_attribute_order_witness:
  "candidate exampleWorld floodTeaser \<lparr> articles = [], articleID = 0 \<rparr> = Some floodArticle
   \<and> ChildAttr floodTeaser ''img'' ''src'' = ''https://www.thedailystar.net/a.jpg''
   \<and> ImageURL floodArticle = ''https://www.thedailystar.net/a.jpg''
   \<and> map_option ImageURL (candidate exampleWorld lazyTeaser \<lparr> articles = [], articleID = 0 \<rparr>)
      = Some ''https://www.thedailystar.net/x.jpg''
   \<and> ChildAttr lazyTeaser ''img'' ''data-srcset'' = ''https://www.thedailystar.net/y.jpg''
   \<and> map_option ImageURL (candidate exampleWorld srcsetTeaser \<lparr> articles = [], articleID = 0 \<rparr>)
      = Some ''https://www.thedailystar.net/y.jpg''"
proof -
  let ?st = "\<lparr> articles = [], articleID = 0 \<rparr>"
  have flood: "candidate exampleWorld floodTeaser ?st = Some floodArticle"
    by code_simp
  have src: "ChildAttr floodTeaser ''img'' ''src'' = ''https://www.thedailystar.net/a.jpg''"
    by code_simp
  have a: "resolveImageURL floodTeaser ''https://www.thedailystar.net/a.jpg''
      = ''https://www.thedailystar.net/a.jpg''"
    by code_simp
  from image_attribute_order [OF flood] src a
  have 1: "ImageURL floodArticle = ''https://www.thedailystar.net/a.jpg''"
    by simp
  obtain lazy where lazy: "candidate exampleWorld lazyTeaser ?st = Some lazy"
    by (cases "candidate exampleWorld lazyTeaser ?st = None", code_simp, auto)
  have lazyAttrs: "ChildAttr lazyTeaser ''img'' ''src'' = []
      \<and> ChildAttr lazyTeaser ''img'' ''data-src'' = ''https://www.thedailystar.net/x.jpg''
      \<and> ChildAttr lazyTeaser ''img'' ''data-srcset'' = ''https://www.thedailystar.net/y.jpg''"
    by code_simp
  have x: "resolveImageURL lazyTeaser ''https://www.thedailystar.net/x.jpg''
      = ''https://www.thedailystar.net/x.jpg''"
    by code_simp
  from image_attribute_order [OF lazy] lazyAttrs x
  have 2: "ImageURL lazy = ''https://www.thedailystar.net/x.jpg''"
    by simp
  obtain srcset where srcset: "candidate exampleWorld srcsetTeaser ?st = Some srcset"
    by (cases "candidate exampleWorld srcsetTeaser ?st = None", code_simp, auto)
  have srcsetAttrs: "ChildAttr srcsetTeaser ''img'' ''src'' = []
      \<and> ChildAttr srcsetTeaser ''img'' ''data-src'' = []
      \<and> ChildAttr srcsetTeaser ''img'' ''data-lazy-src'' = []
      \<and> ChildAttr srcsetTeaser ''img'' ''data-srcset'' = ''https://www.thedailystar.net/y.jpg''"
    by code_simp
  have y: "resolveImageURL srcsetTeaser ''https://www.thedailystar.net/y.jpg''
      = ''https://www.thedailystar.net/y.jpg''"
    by code_simp
  from image_attribute_order [OF srcset] srcsetAttrs y
  have 3: "ImageURL srcset = ''https://www.thedailystar.net/y.jpg''"
    by simp
  from flood src 1 lazy 2 lazyAttrs srcset 3 show ?thesis
    by simp
qed


section \<open>Link filter\<close>

text \<open>
  C8. Let \<open>link\<close> be the resolved link of a container and \<open>path\<close> what is left of it
  after the origin \<open>https://www.thedailystar.net\<close> is stripped. The container is rejected
  when \<open>path\<close>, split at \<open>/\<close>, has 3 or fewer segments or an empty last segment, and it
  is rejected when \<open>path\<close> contains none of the six section keywords. In particular the
  paths \<open>/news\<close> and \<open>/about\<close> are rejected, and \<open>/news/bangladesh/2024/flood-story\<close> is
  accepted: a container with that path, a title and a link not seen before yields an
  article with that link while fewer than 10 articles are held.
\<close>

theorem link_filter:
  assumes link: "link = AbsoluteURL (Request e) (ChildAttr e ''a'' ''href'')"
    and path: "path = TrimPrefix link ''https://www.thedailystar.net''"
  shows "(length (Split path ''/'') \<le> 3 \<or> last (Split path ''/'') = []
            \<longrightarrow> candidate w e st = None)
     \<and> (\<not> Contains path ''/news/'' \<and> \<not> Contains path ''/bangladesh/''
          \<and> \<not> Contains path ''/world/'' \<and> \<not> Contains path ''/business/''
          \<and> \<not> Contains path ''/sports/'' \<and> \<not> Contains path ''/entertainment/''
            \<longrightarrow> candidate w e st = None)
     \<and> (path = ''/news'' \<longrightarrow> candidate w e st = None)
     \<and> (path = ''/about'' \<longrightarrow> candidate w e st = None)
     \<and> (path = ''/news/bangladesh/2024/flood-story''
          \<and> length (articles st) < 10 \<and> selectTitle e titleSelectors [] \<noteq> []
          \<and> ChildAttr e ''a'' ''href'' \<noteq> [] \<and> link \<notin> set (map URL (articles st))
            \<longrightarrow> (\<exists>article. candidate w e st = Some article \<and> URL article = link))"
proof (intro conjI impI)
  assume "length (Split path ''/'') \<le> 3 \<or> last (Split path ''/'') = []"
  then have "categoryLink link"
    by (simp add: categoryLink_def pathSegments_def path)
  then show "candidate w e st = None"
    by (simp add: candidate_def Let_def link)
next
  assume "\<not> Contains path ''/news/'' \<and> \<not> Contains path ''/bangladesh/''
          \<and> \<not> Contains path ''/world/'' \<and> \<not> Contains path ''/business/''
          \<and> \<not> Contains path ''/sports/'' \<and> \<not> Contains path ''/entertainment/''"
  then have "notNewsLink path"
    by (simp add: notNewsLink_def)
  then have "notNewsLink link"
    by (simp add: path notNewsLink_TrimPrefix)
  then show "candidate w e st = None"
    by (simp add: candidate_def Let_def link)
next
  assume "path = ''/news''"
  moreover have "length (Split ''/news'' ''/'') \<le> 3"
    by code_simp
  ultimately have "categoryLink link"
    by (simp add: categoryLink_def pathSegments_def path)
  then show "candidate w e st = None"
    by (simp add: candidate_def Let_def link)
next
  assume "path = ''/about''"
  moreover have "length (Split ''/about'' ''/'') \<le> 3"
    by code_simp
  ultimately have "categoryLink link"
    by (simp add: categoryLink_def pathSegments_def path)
  then show "candidate w e st = None"
    by (simp add: candidate_def Let_def link)
next
  assume a: "path = ''/news/bangladesh/2024/flood-story''
          \<and> length (articles st) < 10 \<and> selectTitle e titleSelectors [] \<noteq> []
          \<and> ChildAttr e ''a'' ''href'' \<noteq> [] \<and> link \<notin> set (map URL (articles st))"
  have "\<not> (length (Split ''/news/bangladesh/2024/flood-story'' ''/'') \<le> 3
           \<or> last (Split ''/news/bangladesh/2024/flood-story'' ''/'') = [])"
    by code_simp
  with a have depth: "\<not> categoryLink link"
    by (simp add: categoryLink_def pathSegments_def path)
  have "\<not> notNewsLink ''/news/bangladesh/2024/flood-story''"
    by code_simp
  with a have "\<not> notNewsLink path"
    by simp
  then have keyword: "\<not> notNewsLink link"
    by (simp add: path notNewsLink_TrimPrefix)
  from a have fresh: "\<not> duplicateURL (articles st) link"
    by (simp add: duplicateURL_iff)
  from a depth keyword fresh
  show "\<exists>article. candidate w e st = Some article \<and> URL article = link"
    by (simp add: candidate_def Let_def link [symmetric])
qed

theorem link_filter_witness:
  "candidate exampleWorld sectionTeaser \<lparr> articles = [], articleID = 0 \<rparr> = None
   \<and> candidate exampleWorld aboutTeaser \<lparr> articles = [], articleID = 0 \<rparr> = None
   \<and> (\<exists>article. candidate exampleWorld floodTeaser \<lparr> articles = [], articleID = 0 \<rparr> = Some article
         \<and> URL article = floodURL)"
proof -
  let ?st = "\<lparr> articles = [], articleID = 0 \<rparr>"
  have news: "TrimPrefix (AbsoluteURL (Request sectionTeaser) (ChildAttr sectionTeaser ''a'' ''href''))
      ''https://www.thedailystar.net'' = ''/news''"
    by code_simp
  have about: "TrimPrefix (AbsoluteURL (Request aboutTeaser) (ChildAttr aboutTeaser ''a'' ''href''))
      ''https://www.thedailystar.net'' = ''/about''"
    by code_simp
  have flood: "TrimPrefix floodURL ''https://www.thedailystar.net''
      = ''/news/bangladesh/2024/flood-story''"
    by code_simp
  have link: "AbsoluteURL (Request floodTeaser) (ChildAttr floodTeaser ''a'' ''href'') = floodURL"
    by code_simp
  have pre: "length (articles ?st) < 10 \<and> selectTitle floodTeaser titleSelectors [] \<noteq> []
      \<and> ChildAttr floodTeaser ''a'' ''href'' \<noteq> []
      \<and> floodURL \<notin> set (map URL (articles ?st))"
    by code_simp
  from link_filter [OF refl refl, of sectionTeaser exampleWorld ?st] news
  have 1: "candidate exampleWorld sectionTeaser ?st = None" by blast
  from link_filter [OF refl refl, of aboutTeaser exampleWorld ?st] about
  have 2: "candidate exampleWorld aboutTeaser ?st = None" by blast
  from link_filter [OF link [symmetric] refl, of exampleWorld ?st] flood link pre
  have 3: "\<exists>article. candidate exampleWorld floodTeaser ?st = Some article \<and> URL article = floodURL"
    by blast
  from 1 2 3 show ?thesis by blast
qed


section \<open>Enrichment of a populated list\<close>

text \<open>
  C5. On a list in which every article has a non-empty \<open>ImageURL\<close> and a non-empty
  \<open>Description\<close>, the enrichment pass changes nothing, so a second pass, in whatever
  state the network then is, gives what the first gave. (The proof uses the images only:
  the pass never looks at the description.)
\<close>

theorem enrichment_idempotent_when_populated:
  assumes "\<forall>article\<in>set news. ImageURL article \<noteq> [] \<and> Description article \<noteq> []"
  shows "updateMissingImageURLs w news = news
     \<and> updateMissingImageURLs w' (updateMissingImageURLs w news) = updateMissingImageURLs w news"
proof -
  from assms have "\<forall>article\<in>set news. ImageURL article \<noteq> []"
    by blast
  then have "updateMissingImageURLs v news = news" for v
    by (rule updateMissingImageURLs_populated)
  then show ?thesis
    by simp
qed

theorem enrichment_idempotent_when_populated_witness:
  "ImageURL populatedArticle \<noteq> [] \<and> Description populatedArticle \<noteq> []
   \<and> updateMissingImageURLs exampleWorld [populatedArticle, populatedArticle \<lparr> URL := helloURL \<rparr>]
      = [populatedArticle, populatedArticle \<lparr> URL := helloURL \<rparr>]
   \<and> updateMissingImageURLs offlineWorld
        (updateMissingImageURLs exampleWorld [populatedArticle, populatedArticle \<lparr> URL := helloURL \<rparr>])
      = updateMissingImageURLs exampleWorld [populatedArticle, populatedArticle \<lparr> URL := helloURL \<rparr>]"
proof -
  have populated: "ImageURL populatedArticle \<noteq> [] \<and> Description populatedArticle \<noteq> []"
    by code_simp
  then have full: "\<forall>article\<in>set [populatedArticle, populatedArticle \<lparr> URL := helloURL \<rparr>].
       ImageURL article \<noteq> [] \<and> Description article \<noteq> []"
    by simp
  from enrichment_idempotent_when_populated [OF full, of exampleWorld offlineWorld] populated
  show ?thesis by blast
qed

text \<open>
  The pass of package \<^verbatim>\<open>handler\<close> looks at both fields, and on the same lists it
  changes nothing either.
\<close>

lemma updateArticleDetails_populated:
  "\<forall>article\<in>set news. ImageURL article \<noteq> [] \<and> Description article \<noteq> []
   \<Longrightarrow> updateArticleDetails w news = news"
  by (induction news) auto


section \<open>Aggregation\<close>

text \<open>
  C6. Whatever the registry, the network and the order of arrival, \<open>GetAllNews\<close> answers
  with status 200 and \<open>Success = True\<close>, and \<open>Data\<close> is the concatenation, in the order of
  arrival, of the article lists of the active sources whose scrape succeeded; a source
  whose scrape returns an error sends the empty list.
\<close>

theorem aggregation_tolerates_failures:
  "(\<exists>r. GetAllNews w sources order = (StatusOK, NewsJSON r) \<and> Success r
        \<and> Data r = concat (List.map_filter (successfulScrape w sources) order))
   \<and> (\<forall>name source err. fetchNewsFromSource w name (URL_Source source) = Inl err
          \<longrightarrow> sendNews w name source = [])"
  by (simp add: GetAllNews_def Let_def collectNews_successful sendNews_def)

theorem aggregation_tolerates_failures_witness:
  "fetchNewsFromSource exampleWorld ''cnn'' ''https://edition.cnn.com/''
      = Inl (Errorf ''unsupported source: cnn'')
   \<and> sendNews exampleWorld ''cnn'' \<lparr> Name = ''cnn'', DisplayName = ''CNN'',
          URL_Source = ''https://edition.cnn.com/'', Active = True \<rparr> = []
   \<and> List.map_filter (successfulScrape exampleWorld twoSources) [''cnn'', ''thedailystar'']
      = [[floodArticle, helloEnriched]]
   \<and> (\<exists>r. GetAllNews exampleWorld twoSources [''cnn'', ''thedailystar''] = (StatusOK, NewsJSON r)
         \<and> Success r \<and> Data r = [floodArticle, helloEnriched])"
proof -
  have failed: "fetchNewsFromSource exampleWorld ''cnn''
      (URL_Source \<lparr> Name = ''cnn'', DisplayName = ''CNN'',
          URL_Source = ''https://edition.cnn.com/'', Active = True \<rparr>)
      = Inl (Errorf ''unsupported source: cnn'')"
    by code_simp
  have ok: "List.map_filter (successfulScrape exampleWorld twoSources) [''cnn'', ''thedailystar'']
      = [[floodArticle, helloEnriched]]"
    by code_simp
  from aggregation_tolerates_failures [of exampleWorld twoSources "[''cnn'', ''thedailystar'']"]
    failed ok
  show ?thesis by simp
qed


section \<open>Requests for one source\<close>

text \<open>
  C7, as the specification states it, fails: when the entry page of the source cannot be
  visited, \<open>GetNewsBySource\<close> answers with status 500 and the error \<open>fetch_error\<close>, not
  with a shorter list.
\<close>

theorem single_source_fetch_error_counterexample:
  "GetNewsBySource offlineWorld NewNewsService ''thedailystar''
     = (500, ErrorJSON \<lparr> Success_ErrorResponse = False, Error = ''fetch_error'',
               Message = ''Failed to fetch news: failed to visit: connection refused'' \<rparr>)"
  by code_simp

text \<open>
  C7, amended. A request for one source has three error responses: \<open>source_not_found\<close>
  (404) for a name that is not in the registry, \<open>source_inactive\<close> (400) for an inactive
  source, and \<open>fetch_error\<close> (500) when the scrape of the source returns an error; every
  other request is answered with status 200 and the articles. The scrape returns an
  error only when the source has no scraper or its entry page cannot be visited: no
  failure on an article page makes the request fail.
\<close>

theorem single_source_failures:
  "(sources sourceName = None \<longrightarrow>
      GetNewsBySource w sources sourceName
        = (StatusNotFound, ErrorJSON \<lparr> Success_ErrorResponse = False,
             Error = ''source_not_found'', Message = ''News source not found'' \<rparr>))
   \<and> (\<forall>source. sources sourceName = Some source \<and> \<not> Active source \<longrightarrow>
      GetNewsBySource w sources sourceName
        = (StatusBadRequest, ErrorJSON \<lparr> Success_ErrorResponse = False,
             Error = ''source_inactive'', Message = ''News source is currently inactive'' \<rparr>))
   \<and> (\<forall>source err. sources sourceName = Some source \<and> Active source
          \<and> fetchNewsFromSource w sourceName (URL_Source source) = Inl err \<longrightarrow>
      GetNewsBySource w sources sourceName
        = (StatusInternalServerError, ErrorJSON \<lparr> Success_ErrorResponse = False,
             Error = ''fetch_error'', Message = ''Failed to fetch news: '' @ errorString err \<rparr>))
   \<and> (\<forall>source news. sources sourceName = Some source \<and> Active source
          \<and> fetchNewsFromSource w sourceName (URL_Source source) = Inr news \<longrightarrow>
      GetNewsBySource w sources sourceName
        = (StatusOK, NewsJSON \<lparr> Success = True, Data = news, Count = int (length news),
             Source_NewsResponse = sourceName \<rparr>))
   \<and> (\<forall>url err. fetchNewsFromSource w sourceName url = Inl err \<longrightarrow>
      sourceName \<noteq> ''thedailystar'' \<or> (\<exists>cause. Visit w url = Inl cause))"
  by (auto simp: GetNewsBySource_def fetchNewsFromSource_def fetchTheDailyStarWithColly_Inl
           split: if_splits)

theorem single_source_failures_witness:
  "GetNewsBySource offlineWorld twoSources ''bbc''
     = (404, ErrorJSON \<lparr> Success_ErrorResponse = False,
             Error = ''source_not_found'', Message = ''News source not found'' \<rparr>)
   \<and> GetNewsBySource offlineWorld
        (twoSources(''cnn'' \<mapsto> \<lparr> Name = ''cnn'', DisplayName = ''CNN'',
           URL_Source = ''https://edition.cnn.com/'', Active = False \<rparr>)) ''cnn''
     = (400, ErrorJSON \<lparr> Success_ErrorResponse = False,
             Error = ''source_inactive'', Message = ''News source is currently inactive'' \<rparr>)
   \<and> GetNewsBySource offlineWorld twoSources ''thedailystar''
     = (500, ErrorJSON \<lparr> Success_ErrorResponse = False, Error = ''fetch_error'',
             Message = ''Failed to fetch news: failed to visit: connection refused'' \<rparr>)
   \<and> GetNewsBySource exampleWorld twoSources ''thedailystar''
     = (200, NewsJSON \<lparr> Success = True, Data = [floodArticle, helloEnriched], Count = 2,
             Source_NewsResponse = ''thedailystar'' \<rparr>)
   \<and> Visit offlineWorld ''https://www.thedailystar.net/'' = Inl (Errorf ''connection refused'')"
proof -
  let ?inactive = "\<lparr> Name = ''cnn'', DisplayName = ''CNN'',
           URL_Source = ''https://edition.cnn.com/'', Active = False \<rparr>"
  let ?star = "\<lparr> Name = ''thedailystar'', DisplayName = ''The Daily Star'',
          URL_Source = ''https://www.thedailystar.net/'', Active = True \<rparr>"
  have unknown: "twoSources ''bbc'' = None"
    by (simp add: twoSources_def NewNewsService_def)
  have inactive: "(twoSources(''cnn'' \<mapsto> ?inactive)) ''cnn'' = Some ?inactive \<and> \<not> Active ?inactive"
    by simp
  have star: "twoSources ''thedailystar'' = Some ?star \<and> Active ?star"
    by (simp add: twoSources_def NewNewsService_def)
  have failed: "fetchNewsFromSource offlineWorld ''thedailystar'' (URL_Source ?star)
      = Inl (Errorf ''failed to visit: connection refused'')"
    by code_simp
  have fetched: "fetchNewsFromSource exampleWorld ''thedailystar'' (URL_Source ?star)
      = Inr [floodArticle, helloEnriched]"
    by code_simp
  have visit: "Visit offlineWorld ''https://www.thedailystar.net/'' = Inl (Errorf ''connection refused'')"
    by (simp add: offlineWorld_def)
  note off = single_source_failures [of twoSources "''bbc''" offlineWorld]
  note ina = single_source_failures [of "twoSources(''cnn'' \<mapsto> ?inactive)" "''cnn''" offlineWorld]
  note err = single_source_failures [of twoSources "''thedailystar''" offlineWorld]
  note suc = single_source_failures [of twoSources "''thedailystar''" exampleWorld]
  have 1: "GetNewsBySource offlineWorld twoSources ''bbc''
     = (404, ErrorJSON \<lparr> Success_ErrorResponse = False,
             Error = ''source_not_found'', Message = ''News source not found'' \<rparr>)"
    using off unknown by (simp add: StatusNotFound_def)
  have 2: "GetNewsBySource offlineWorld (twoSources(''cnn'' \<mapsto> ?inactive)) ''cnn''
     = (400, ErrorJSON \<lparr> Success_ErrorResponse = False,
             Error = ''source_inactive'', Message = ''News source is currently inactive'' \<rparr>)"
    using ina inactive by (simp add: StatusBadRequest_def)
  have 3: "GetNewsBySource offlineWorld twoSources ''thedailystar''
     = (500, ErrorJSON \<lparr> Success_ErrorResponse = False, Error = ''fetch_error'',
             Message = ''Failed to fetch news: failed to visit: connection refused'' \<rparr>)"
    using err star failed by (simp add: StatusInternalServerError_def)
  have 4: "GetNewsBySource exampleWorld twoSources ''thedailystar''
     = (200, NewsJSON \<lparr> Success = True, Data = [floodArticle, helloEnriched], Count = 2,
             Source_NewsResponse = ''thedailystar'' \<rparr>)"
    using suc star fetched by (simp add: StatusOK_def)
  from 1 2 3 4 visit show ?thesis by blast
qed


section \<open>What the enrichment pass stores\<close>

text \<open>
  C4. The enrichment pass that fills both fields is \<open>updateArticleDetails\<close>. An article
  whose image and description are both non-empty is left as it is. For an article with
  an empty image or an empty description the pass fetches the page at the article's own
  \<open>URL\<close>; when the fetch fails the article is left as it is, and otherwise each of the two
  fields that was empty receives what the page gave, and a field that was populated is
  kept. What a page that answers with status 200 gives is, for the image, the first
  non-empty value among the \<open>data-srcset\<close> of the picture images, the \<open>data-src\<close> of the
  gallery spans, the Open Graph image and the \<open>src\<close> of the images of the article body;
  and for the description, cut after 200 bytes with an ellipsis, the first non-empty
  text among the Open Graph descriptions, the description meta tags and the paragraphs
  of more than 50 bytes in a content container.
\<close>

theorem enrichment_fills_empty_fields:
  "length (updateArticleDetails w news) = length news
   \<and> (\<forall>i<length news.
        (ImageURL (news ! i) \<noteq> [] \<and> Description (news ! i) \<noteq> []
           \<longrightarrow> updateArticleDetails w news ! i = news ! i)
      \<and> (ImageURL (news ! i) = [] \<or> Description (news ! i) = []
           \<longrightarrow> (case scrapeArticleDetailsFromURL w (URL (news ! i)) of
                 Inl err \<Rightarrow> updateArticleDetails w news ! i = news ! i
               | Inr (imageURL, description) \<Rightarrow>
                   updateArticleDetails w news ! i = (news ! i)
                     \<lparr> ImageURL := (if ImageURL (news ! i) = [] then imageURL
                                     else ImageURL (news ! i)),
                       Description := (if Description (news ! i) = [] then description
                                        else Description (news ! i)) \<rparr>)))
   \<and> (\<forall>url doc. Get w url = Response StatusOK (Inr doc) \<longrightarrow>
        scrapeArticleDetailsFromURL w url = Inr
          (firstNonEmpty
             (List.map_filter (\<lambda>s. Attr s ''data-srcset'') (Find doc ''picture img'')
              @ List.map_filter (\<lambda>s. Attr s ''data-src'') (Find doc ''span.lg-gallery'')
              @ List.map_filter (\<lambda>s. Attr s ''content'') (Find doc ''meta[property='og:image']'')
              @ List.map_filter (\<lambda>s. Attr s ''src'')
                  (Find doc ''article img, div.section-media img'')),
           (let description = firstNonEmpty
                 (map TrimSpace (List.map_filter (\<lambda>s. Attr s ''content'')
                       (Find doc ''meta[property='og:description']''))
                  @ map TrimSpace (List.map_filter (\<lambda>s. Attr s ''content'')
                       (Find doc ''meta[name='description']''))
                  @ filter (\<lambda>p. 50 < length p) (map (\<lambda>s. TrimSpace (Text s))
                       (Find doc
                          ''.article__content p, .article-body p, .paragraph, .zn-body__paragraph'')))
            in if 200 < length description then take 200 description @ ''...''
               else description)))"
proof (intro conjI)
  show "length (updateArticleDetails w news) = length news"
    by (induction news) simp_all
next
  show "\<forall>i<length news.
        (ImageURL (news ! i) \<noteq> [] \<and> Description (news ! i) \<noteq> []
           \<longrightarrow> updateArticleDetails w news ! i = news ! i)
      \<and> (ImageURL (news ! i) = [] \<or> Description (news ! i) = []
           \<longrightarrow> (case scrapeArticleDetailsFromURL w (URL (news ! i)) of
                 Inl err \<Rightarrow> updateArticleDetails w news ! i = news ! i
               | Inr (imageURL, description) \<Rightarrow>
                   updateArticleDetails w news ! i = (news ! i)
                     \<lparr> ImageURL := (if ImageURL (news ! i) = [] then imageURL
                                     else ImageURL (news ! i)),
                       Description := (if Description (news ! i) = [] then description
                                        else Description (news ! i)) \<rparr>))"
  proof (induction news)
    case Nil
    then show ?case by simp
  next
    case (Cons article rest)
    show ?case
    proof (intro allI impI)
      fix i
      assume "i < length (article # rest)"
      then show "(ImageURL ((article # rest) ! i) \<noteq> [] \<and> Description ((article # rest) ! i) \<noteq> []
           \<longrightarrow> updateArticleDetails w (article # rest) ! i = (article # rest) ! i)
        \<and> (ImageURL ((article # rest) ! i) = [] \<or> Description ((article # rest) ! i) = []
           \<longrightarrow> (case scrapeArticleDetailsFromURL w (URL ((article # rest) ! i)) of
                 Inl err \<Rightarrow> updateArticleDetails w (article # rest) ! i = (article # rest) ! i
               | Inr (imageURL, description) \<Rightarrow>
                   updateArticleDetails w (article # rest) ! i = ((article # rest) ! i)
                     \<lparr> ImageURL := (if ImageURL ((article # rest) ! i) = [] then imageURL
                                     else ImageURL ((article # rest) ! i)),
                       Description := (if Description ((article # rest) ! i) = [] then description
                                        else Description ((article # rest) ! i)) \<rparr>))"
      proof (cases i)
        case 0
        then show ?thesis
          by (auto simp: Let_def split: sum.splits prod.splits)
      next
        case (Suc j)
        with \<open>i < length (article # rest)\<close> have j: "j < length rest" by simp
        from Suc have step: "(article # rest) ! i = rest ! j"
          "updateArticleDetails w (article # rest) ! i = updateArticleDetails w rest ! j"
          by simp_all
        from Cons.IH j show ?thesis
          unfolding step by blast
      qed
    qed
  qed
next
  show "\<forall>url doc. Get w url = Response StatusOK (Inr doc) \<longrightarrow>
        scrapeArticleDetailsFromURL w url = Inr
          (firstNonEmpty
             (List.map_filter (\<lambda>s. Attr s ''data-srcset'') (Find doc ''picture img'')
              @ List.map_filter (\<lambda>s. Attr s ''data-src'') (Find doc ''span.lg-gallery'')
              @ List.map_filter (\<lambda>s. Attr s ''content'') (Find doc ''meta[property='og:image']'')
              @ List.map_filter (\<lambda>s. Attr s ''src'')
                  (Find doc ''article img, div.section-media img'')),
           (let description = firstNonEmpty
                 (map TrimSpace (List.map_filter (\<lambda>s. Attr s ''content'')
                       (Find doc ''meta[property='og:description']''))
                  @ map TrimSpace (List.map_filter (\<lambda>s. Attr s ''content'')
                       (Find doc ''meta[name='description']''))
                  @ filter (\<lambda>p. 50 < length p) (map (\<lambda>s. TrimSpace (Text s))
                       (Find doc
                          ''.article__content p, .article-body p, .paragraph, .zn-body__paragraph'')))
            in if 200 < length description then take 200 description @ ''...''
               else description))"
    by (simp add: scrapeArticleDetailsFromURL_def Let_def eachAttr_first eachContent_first
          eachParagraph_first firstNonEmpty_append)
qed

theorem enrichment_fills_empty_fields_witness:
  "ImageURL floodArticle \<noteq> [] \<and> Description floodArticle = []
   \<and> ImageURL helloArticle = [] \<and> Description helloArticle = []
   \<and> scrapeArticleDetailsFromURL exampleWorld (URL floodArticle)
      = Inr (''https://www.thedailystar.net/flood.jpg'', ''Rivers overflow in Sylhet'')
   \<and> scrapeArticleDetailsFromURL exampleWorld (URL helloArticle)
      = Inr (''/sites/default/files/hello.jpg'', ''Hello to the world'')
   \<and> updateArticleDetails exampleWorld [floodArticle, helloArticle] ! 0
      = floodArticle \<lparr> Description := ''Rivers overflow in Sylhet'' \<rparr>
   \<and> updateArticleDetails exampleWorld [floodArticle, helloArticle] ! 1
      = helloArticle \<lparr> ImageURL := ''/sites/default/files/hello.jpg'',
                       Description := ''Hello to the world'' \<rparr>"
proof -
  let ?news = "[floodArticle, helloArticle]"
  have fields: "ImageURL floodArticle \<noteq> [] \<and> Description floodArticle = []
      \<and> ImageURL helloArticle = [] \<and> Description helloArticle = []"
    by code_simp
  have floodPage: "Get exampleWorld (URL floodArticle)
      = Response StatusOK (Inr (articlePage ''https://www.thedailystar.net/flood.jpg''
                                  ''Rivers overflow in Sylhet''))"
    by (simp add: exampleWorld_def floodArticle_def floodURL_def helloURL_def StatusOK_def)
  have helloPage: "Get exampleWorld (URL helloArticle)
      = Response StatusOK (Inr (articlePage ''/sites/default/files/hello.jpg''
                                  ''Hello to the world''))"
    by (simp add: exampleWorld_def helloArticle_def StatusOK_def)
  note pass = enrichment_fills_empty_fields [of exampleWorld ?news]
  have floodGives: "(firstNonEmpty
             (List.map_filter (\<lambda>s. Attr s ''data-srcset'')
                (Find (articlePage ''https://www.thedailystar.net/flood.jpg''
                         ''Rivers overflow in Sylhet'') ''picture img'')),
           firstNonEmpty
             (map TrimSpace (List.map_filter (\<lambda>s. Attr s ''content'')
                (Find (articlePage ''https://www.thedailystar.net/flood.jpg''
                         ''Rivers overflow in Sylhet'') ''meta[property='og:description']''))))
      = (''https://www.thedailystar.net/flood.jpg'', ''Rivers overflow in Sylhet'')"
    by code_simp
  have helloGives: "(firstNonEmpty
             (List.map_filter (\<lambda>s. Attr s ''data-srcset'')
                (Find (articlePage ''/sites/default/files/hello.jpg''
                         ''Hello to the world'') ''picture img'')),
           firstNonEmpty
             (map TrimSpace (List.map_filter (\<lambda>s. Attr s ''content'')
                (Find (articlePage ''/sites/default/files/hello.jpg''
                         ''Hello to the world'') ''meta[property='og:description']''))))
      = (''/sites/default/files/hello.jpg'', ''Hello to the world'')"
    by code_simp
  have others: "Find (articlePage srcset summary) ''span.lg-gallery'' = []
      \<and> Find (articlePage srcset summary) ''meta[property='og:image']'' = []
      \<and> Find (articlePage srcset summary) ''article img, div.section-media img'' = []
      \<and> Find (articlePage srcset summary) ''meta[name='description']'' = []
      \<and> Find (articlePage srcset summary)
           ''.article__content p, .article-body p, .paragraph, .zn-body__paragraph'' = []"
    for srcset summary
    by (simp add: articlePage_def)
  from pass floodPage floodGives
  have flood: "scrapeArticleDetailsFromURL exampleWorld (URL floodArticle)
      = Inr (''https://www.thedailystar.net/flood.jpg'', ''Rivers overflow in Sylhet'')"
    by (simp add: others Let_def)
  from pass helloPage helloGives
  have hello: "scrapeArticleDetailsFromURL exampleWorld (URL helloArticle)
      = Inr (''/sites/default/files/hello.jpg'', ''Hello to the world'')"
    by (simp add: others Let_def)
  note at0 = pass [THEN conjunct2, THEN conjunct1, rule_format, of 0]
  note at1 = pass [THEN conjunct2, THEN conjunct1, rule_format, of 1]
  from at0 fields flood
  have first: "updateArticleDetails exampleWorld ?news ! 0
      = floodArticle \<lparr> Description := ''Rivers overflow in Sylhet'' \<rparr>"
    by (simp del: updateArticleDetails.simps)
  from at1 fields hello
  have second: "updateArticleDetails exampleWorld ?news ! 1
      = helloArticle \<lparr> ImageURL := ''/sites/default/files/hello.jpg'',
                       Description := ''Hello to the world'' \<rparr>"
    by (simp del: updateArticleDetails.simps)
  from fields flood hello first second show ?thesis
    by blast
qed

text \<open>
  The enrichment pass of package \<^verbatim>\<open>main\<close>, \<open>updateMissingImageURLs\<close>, is the pass for
  images that its name and its comment announce: it fetches the page of an article
  without an image and stores the image. On the same two articles it fetches the page of
  the second alone, and on no input does it change a description.
\<close>

lemma updateMissingImageURLs_example:
  "updateMissingImageURLs exampleWorld [floodArticle, helloArticle] = [floodArticle, helloEnriched]
   \<and> map Description [floodArticle, helloEnriched] = [[], []]"
  by code_simp

lemma updateMissingImageURLs_Description:
  "map Description (updateMissingImageURLs w news) = map Description news"
  by (induction news) (auto split: sum.splits)

text \<open>
  C9. The specification has every stored image be an absolute URL. The listing pass
  resolves the value it finds with \<open>AbsoluteURL\<close>; \<open>scrapeImageFromURL\<close> returns the
  attribute as the page has it. The page of the second article of the example names its
  picture by a path, and the path is what the article ends up with.
\<close>

theorem enrichment_stores_unresolved_image:
  "scrapeImageFromURL exampleWorld helloURL = Inr ''/sites/default/files/hello.jpg''
   \<and> fetchTheDailyStarWithColly exampleWorld ''https://www.thedailystar.net/''
      = Inr [floodArticle, helloEnriched]
   \<and> ImageURL helloEnriched = ''/sites/default/files/hello.jpg''
   \<and> AbsoluteURL exampleRequest (ImageURL helloEnriched)
      = ''https://www.thedailystar.net/sites/default/files/hello.jpg''"
  by code_simp


section \<open>Response envelopes\<close>

text \<open>
  C10. In every success response of the service, from \<open>GetAllNews\<close> and from
  \<open>GetNewsBySource\<close> alike, the field \<open>Count\<close> is the length of the list \<open>Data\<close>.
\<close>

theorem count_is_length_of_data:
  assumes "GetAllNews w sources order = (code, NewsJSON r)
         \<or> GetNewsBySource w sources sourceName = (code, NewsJSON r)"
  shows "Count r = int (length (Data r))"
  using assms
  by (auto simp: GetAllNews_def GetNewsBySource_def Let_def split: option.splits sum.splits if_splits)

theorem count_is_length_of_data_witness:
  "GetAllNews exampleWorld twoSources [''cnn'', ''thedailystar'']
     = (200, NewsJSON \<lparr> Success = True, Data = [floodArticle, helloEnriched], Count = 2,
                        Source_NewsResponse = [] \<rparr>)
   \<and> GetNewsBySource exampleWorld twoSources ''thedailystar''
     = (200, NewsJSON \<lparr> Success = True, Data = [floodArticle, helloEnriched], Count = 2,
                        Source_NewsResponse = ''thedailystar'' \<rparr>)
   \<and> Count \<lparr> Success = True, Data = [floodArticle, helloEnriched], Count = 2,
              Source_NewsResponse = [] \<rparr> = int (length [floodArticle, helloEnriched])
   \<and> Count \<lparr> Success = True, Data = [floodArticle, helloEnriched], Count = 2,
              Source_NewsResponse = ''thedailystar'' \<rparr> = int (length [floodArticle, helloEnriched])"
proof -
  have all: "GetAllNews exampleWorld twoSources [''cnn'', ''thedailystar'']
     = (200, NewsJSON \<lparr> Success = True, Data = [floodArticle, helloEnriched], Count = 2,
                        Source_NewsResponse = [] \<rparr>)"
    by code_simp
  have one: "GetNewsBySource exampleWorld twoSources ''thedailystar''
     = (200, NewsJSON \<lparr> Success = True, Data = [floodArticle, helloEnriched], Count = 2,
                        Source_NewsResponse = ''thedailystar'' \<rparr>)"
    by code_simp
  from count_is_length_of_data [OF disjI1 [OF all]] count_is_length_of_data [OF disjI2 [OF one]]
    all one
  show ?thesis by simp
qed

end
